theory Spec2Isabelle
  imports Complex_Main
begin

section \<open>Tensor entries\<close>

text \<open>
  The trackers of \<^verbatim>\<open>ssumo/model/disentangle.py\<close> compute on floating-point tensors.
  Rounding is not modelled: a finite entry is a real number. What is modelled is the one
  special value the source itself can produce from finite data, the not-a-number that
  \<^verbatim>\<open>torch.mean\<close> and \<^verbatim>\<open>torch.cov\<close> return over zero rows (0/0). It is absorbing for
  the arithmetic and every comparison with it is false.
\<close>

datatype flt = Fin real | NaN

instantiation flt :: "{zero, one, plus, minus, times}"
begin

definition zero_flt :: flt where
  "zero_flt = Fin 0"

definition one_flt :: flt where
  "one_flt = Fin 1"

definition plus_flt :: "flt \<Rightarrow> flt \<Rightarrow> flt" where
  "plus_flt a b = (case a of NaN \<Rightarrow> NaN | Fin x \<Rightarrow> (case b of NaN \<Rightarrow> NaN | Fin y \<Rightarrow> Fin (x + y)))"

definition minus_flt :: "flt \<Rightarrow> flt \<Rightarrow> flt" where
  "minus_flt a b = (case a of NaN \<Rightarrow> NaN | Fin x \<Rightarrow> (case b of NaN \<Rightarrow> NaN | Fin y \<Rightarrow> Fin (x - y)))"

definition times_flt :: "flt \<Rightarrow> flt \<Rightarrow> flt" where
  "times_flt a b = (case a of NaN \<Rightarrow> NaN | Fin x \<Rightarrow> (case b of NaN \<Rightarrow> NaN | Fin y \<Rightarrow> Fin (x * y)))"

instance ..

end

instance flt :: comm_monoid_add
  by standard (auto simp: plus_flt_def zero_flt_def split: flt.splits)

instance flt :: comm_monoid_mult
  by standard (auto simp: times_flt_def one_flt_def split: flt.splits)

text \<open>\<^verbatim>\<open>a < b\<close> on floats: false as soon as one side is not a number.\<close>

fun flt_less :: "flt \<Rightarrow> flt \<Rightarrow> bool" where
  "flt_less (Fin a) (Fin b) = (a < b)"
| "flt_less _ _ = False"

text \<open>\<^verbatim>\<open>torch.sqrt\<close>, used by the norms; its argument is a sum of squares.\<close>

fun flt_sqrt :: "flt \<Rightarrow> flt" where
  "flt_sqrt (Fin a) = Fin (sqrt a)"
| "flt_sqrt NaN = NaN"

text \<open>
  Division of a column sum by the number of rows it was taken over. With zero rows the
  sum is the empty sum 0 and the quotient is 0/0, not a number.
\<close>

fun div_count :: "flt \<Rightarrow> nat \<Rightarrow> flt" where
  "div_count (Fin a) n = (if n = 0 then NaN else Fin (a / real n))"
| "div_count NaN n = NaN"

definition is_fin :: "flt \<Rightarrow> bool" where
  "is_fin a = (case a of Fin _ \<Rightarrow> True | NaN \<Rightarrow> False)"

section \<open>Vectors and matrices\<close>

text \<open>
  A one-dimensional tensor is a list, a two-dimensional tensor the list of its rows.
  The helpers are polymorphic in the entry: \<^typ>\<open>flt\<close> for the statistics of the trackers,
  \<^typ>\<open>real\<close> where the source has no operation that leaves the finite values.
\<close>

definition vadd :: "'a::plus list \<Rightarrow> 'a list \<Rightarrow> 'a list" where
  "vadd u v = map2 (+) u v"

definition vsub :: "'a::minus list \<Rightarrow> 'a list \<Rightarrow> 'a list" where
  "vsub u v = map2 (-) u v"

definition vscale :: "'a::times \<Rightarrow> 'a list \<Rightarrow> 'a list" where
  "vscale c v = map (\<lambda>a. c * a) v"

definition madd :: "'a::plus list list \<Rightarrow> 'a list list \<Rightarrow> 'a list list" where
  "madd A B = map2 vadd A B"

definition mscale :: "'a::times \<Rightarrow> 'a list list \<Rightarrow> 'a list list" where
  "mscale c A = map (vscale c) A"

definition dot :: "'a::{monoid_add,times} list \<Rightarrow> 'a list \<Rightarrow> 'a" where
  "dot u v = sum_list (map2 (*) u v)"

text \<open>Column \<open>j\<close> of a matrix, and the transpose of a matrix with \<open>n\<close> columns.\<close>

definition col :: "'a list list \<Rightarrow> nat \<Rightarrow> 'a list" where
  "col A j = map (\<lambda>r. r ! j) A"

definition mtranspose :: "nat \<Rightarrow> 'a list list \<Rightarrow> 'a list list" where
  "mtranspose n A = map (col A) [0..<n]"

text \<open>\<^verbatim>\<open>A @ B\<close> for \<open>B\<close> with \<open>n\<close> columns.\<close>

definition matmul :: "nat \<Rightarrow> 'a::{monoid_add,times} list list \<Rightarrow> 'a list list \<Rightarrow> 'a list list" where
  "matmul n A B = map (\<lambda>r. map (\<lambda>j. dot r (col B j)) [0..<n]) A"

text \<open>\<^verbatim>\<open>torch.linalg.norm\<close> of a vector: the 2-norm.\<close>

definition linalg_norm :: "flt list \<Rightarrow> flt" where
  "linalg_norm v = flt_sqrt (sum_list (map (\<lambda>a. a * a) v))"

text \<open>
  \<^verbatim>\<open>np.clip(v, 0.0, 1.0)\<close> and \<^verbatim>\<open>torch.clamp(v, 0.0, 1.0)\<close> on a forgetting factor.
  Forgetting factors are computed from the constructor's constants by addition,
  subtraction and clipping only, so they are modelled as reals.
\<close>

definition clip :: "real \<Rightarrow> real \<Rightarrow> real \<Rightarrow> real" where
  "clip v lo hi = min (max v lo) hi"

text \<open>\<^verbatim>\<open>x[y == label]\<close> and \<^verbatim>\<open>x[y != label]\<close>: the rows of the batch selected by the labels.\<close>

definition rows_eq :: "'a list \<Rightarrow> int list \<Rightarrow> int \<Rightarrow> 'a list" where
  "rows_eq x y label = map fst (filter (\<lambda>p. snd p = label) (zip x y))"

definition rows_neq :: "'a list \<Rightarrow> int list \<Rightarrow> int \<Rightarrow> 'a list" where
  "rows_neq x y label = map fst (filter (\<lambda>p. snd p \<noteq> label) (zip x y))"

text \<open>
  \<^verbatim>\<open>torch.mean(rows, axis=0)\<close> of a tensor of shape (number of rows, \<open>n\<close>): one entry
  per column, not a number in every column when there is no row.
\<close>

definition torch_mean0 :: "nat \<Rightarrow> flt list list \<Rightarrow> flt list" where
  "torch_mean0 n rs = map (\<lambda>j. div_count (sum_list (col rs j)) (length rs)) [0..<n]"

text \<open>
  \<^verbatim>\<open>torch.cov(rows.T, correction=0)\<close>: the \<open>n \<times> n\<close> matrix of the products of the centred
  columns, summed over the rows and divided by the number of rows.
\<close>

definition torch_cov0 :: "nat \<Rightarrow> flt list list \<Rightarrow> flt list list" where
  "torch_cov0 n rs =
     (let mu = torch_mean0 n rs;
          centred = map (\<lambda>r. vsub r mu) rs
      in map (\<lambda>j. map (\<lambda>k. div_count (dot (col centred j) (col centred k)) (length rs)) [0..<n])
           [0..<n])"

section \<open>Errors and the module base class\<close>

datatype error =
    AttributeError string
  | KeyError string
  | LinAlgError
  | ZeroDivisionError

text \<open>
  What \<^verbatim>\<open>torch.nn.Module\<close> contributes to the constructors: an object has its buffer
  table only once \<^verbatim>\<open>Module.__init__\<close> has run, \<^verbatim>\<open>register_buffer\<close> raises on an object
  without the table, and raises on a name that is already an attribute.
\<close>

record module =
  buffers :: "string list option"

definition new_object :: module where
  "new_object = \<lparr>buffers = None\<rparr>"

definition Module_init :: "module \<Rightarrow> module" where
  "Module_init self = self\<lparr>buffers := Some []\<rparr>"

definition register_buffer :: "string \<Rightarrow> module \<Rightarrow> error + module" where
  "register_buffer name self =
     (case buffers self of
        None \<Rightarrow> Inl (AttributeError ''cannot assign buffer before Module.__init__() call'')
      | Some bs \<Rightarrow>
          if name \<in> set bs then Inl (KeyError (''attribute '' @ name @ '' already exists''))
          else Inr (self\<lparr>buffers := Some (bs @ [name])\<rparr>))"

fun register_buffers :: "string list \<Rightarrow> module \<Rightarrow> error + module" where
  "register_buffers [] self = Inr self"
| "register_buffers (name # names) self =
     (case register_buffer name self of
        Inl e \<Rightarrow> Inl e
      | Inr self' \<Rightarrow> register_buffers names self')"

section \<open>GradientReversal\<close>

text \<open>
  The saved context of the autograd function: the tensors kept by
  \<^verbatim>\<open>save_for_backward\<close> and whether the first input needs a gradient.
\<close>

record ctx =
  saved_x :: "real list"
  saved_alpha :: real
  needs_input_grad0 :: bool

definition GradientReversal_forward :: "bool \<Rightarrow> real list \<Rightarrow> real \<Rightarrow> ctx \<times> real list" where
  "GradientReversal_forward needs x alpha =
     (\<lparr>saved_x = x, saved_alpha = alpha, needs_input_grad0 = needs\<rparr>, x)"

definition GradientReversal_backward :: "ctx \<Rightarrow> real list \<Rightarrow> real list option \<times> real list option" where
  "GradientReversal_backward c grad_output =
     (let grad_input = None;
          alpha = saved_alpha c;
          grad_input = (if needs_input_grad0 c
                        then Some (map (\<lambda>g. - alpha * g) grad_output)
                        else grad_input)
      in (grad_input, None))"

text \<open>\<^verbatim>\<open>GradientReversalLayer\<close>: the layer keeps \<open>alpha\<close> and applies the function.\<close>

definition GradientReversalLayer_forward :: "real \<Rightarrow> bool \<Rightarrow> real list \<Rightarrow> ctx \<times> real list" where
  "GradientReversalLayer_forward alpha needs x = GradientReversal_forward needs x alpha"

section \<open>MovingAverageFilter\<close>

record maf =
  maf_classes :: "int list"
  maf_nx :: nat
  maf_m1 :: "flt list list"
  maf_m2 :: "flt list list"
  maf_lam1 :: "real list"
  maf_lam2 :: "real list"
  maf_delta :: real
  maf_lamdiff :: real

text \<open>
  The values the body of \<^verbatim>\<open>__init__\<close> gives to the buffers and attributes, in the order
  of the source.
\<close>

definition maf_fields :: "nat \<Rightarrow> int list \<Rightarrow> real \<Rightarrow> real \<Rightarrow> maf" where
  "maf_fields nx classes lamdiff delta =
     (let lam1 = replicate (length classes) (1 * 0.5)
      in \<lparr>maf_classes = classes, maf_nx = nx,
          maf_m1 = replicate (length classes) (replicate nx 0),
          maf_m2 = replicate (length classes) (replicate nx 0),
          maf_lam1 = lam1,
          maf_lam2 = map (\<lambda>l. l + lamdiff) lam1,
          maf_delta = delta, maf_lamdiff = lamdiff\<rparr>)"

text \<open>
  \<^verbatim>\<open>MovingAverageFilter.__init__\<close>, run on the fresh object: the source sets
  \<^verbatim>\<open>self.classes\<close> and registers the four buffers without calling
  \<^verbatim>\<open>super().__init__()\<close> first.
\<close>

definition MovingAverageFilter_init :: "nat \<Rightarrow> int list \<Rightarrow> real \<Rightarrow> real \<Rightarrow> error + maf" where
  "MovingAverageFilter_init nx classes lamdiff delta =
     (let self = new_object
      in case register_buffers [''m1'', ''m2'', ''lam1'', ''lam2''] self of
           Inl e \<Rightarrow> Inl e
         | Inr _ \<Rightarrow> Inr (maf_fields nx classes lamdiff delta))"

text \<open>One pass of the loop body of \<^verbatim>\<open>evaluate_loss\<close>, for class number \<open>i\<close>.\<close>

definition maf_adapt :: "bool \<Rightarrow> nat \<Rightarrow> maf \<Rightarrow> maf" where
  "maf_adapt fast_wins i s =
     (if fast_wins then
        (let s' = s\<lparr>maf_lam1 := (maf_lam1 s)[i := clip (maf_lam1 s ! i - maf_delta s) 0 1]\<rparr>
         in s'\<lparr>maf_lam2 := (maf_lam2 s')[i := maf_lam1 s' ! i + maf_lamdiff s']\<rparr>)
      else
        (let s' = s\<lparr>maf_lam2 := (maf_lam2 s)[i := clip (maf_lam2 s ! i + maf_delta s) 0 1]\<rparr>
         in s'\<lparr>maf_lam1 := (maf_lam1 s')[i := maf_lam2 s' ! i - maf_lamdiff s']\<rparr>))"

definition maf_class_step :: "flt list list \<Rightarrow> int list \<Rightarrow> nat \<Rightarrow> int \<Rightarrow> maf \<Rightarrow> maf" where
  "maf_class_step x y i label s =
     (let xbar = torch_mean0 (maf_nx s) (rows_eq x y label);
          d1 = linalg_norm (vsub xbar (maf_m1 s ! i));
          d2 = linalg_norm (vsub xbar (maf_m2 s ! i));
          s = maf_adapt (flt_less d1 d2) i s;
          s = s\<lparr>maf_m1 := (maf_m1 s)[i := vadd (vscale (Fin (1 - maf_lam1 s ! i)) xbar)
                                              (vscale (Fin (maf_lam1 s ! i)) (maf_m1 s ! i))]\<rparr>;
          s = s\<lparr>maf_m2 := (maf_m2 s)[i := vadd (vscale (Fin (1 - maf_lam2 s ! i)) xbar)
                                              (vscale (Fin (maf_lam2 s ! i)) (maf_m2 s ! i))]\<rparr>
      in s)"

text \<open>The loop \<^verbatim>\<open>for i, label in enumerate(self.classes)\<close>, from index \<open>i\<close> on.\<close>

fun maf_loop :: "flt list list \<Rightarrow> int list \<Rightarrow> nat \<Rightarrow> int list \<Rightarrow> maf \<Rightarrow> maf" where
  "maf_loop x y i [] s = s"
| "maf_loop x y i (label # labels) s = maf_loop x y (Suc i) labels (maf_class_step x y i label s)"

text \<open>
  The last lines of \<^verbatim>\<open>evaluate_loss\<close>. The tensor \<^verbatim>\<open>mean_estimate[..., None] -
  mean_estimate[..., None, :]\<close> has the entry \<open>me[c, j] - me[c, k]\<close> at \<open>[c, j, k]\<close>; its
  diagonal of offset 1 over the last two axes keeps the entries \<open>[c, j, j + 1]\<close>.
\<close>

definition maf_mean_estimate :: "maf \<Rightarrow> flt list list" where
  "maf_mean_estimate s = mscale (Fin 0.5) (madd (maf_m1 s) (maf_m2 s))"

definition offset_diagonal :: "flt list \<Rightarrow> flt list" where
  "offset_diagonal r = map (\<lambda>j. r ! j - r ! (j + 1)) [0..<length r - 1]"

definition maf_loss :: "maf \<Rightarrow> flt" where
  "maf_loss s = linalg_norm (concat (map offset_diagonal (maf_mean_estimate s)))"

definition MovingAverageFilter_evaluate_loss :: "flt list list \<Rightarrow> int list \<Rightarrow> maf \<Rightarrow> maf \<times> flt" where
  "MovingAverageFilter_evaluate_loss x y s =
     (let s' = maf_loop x y 0 (maf_classes s) s
      in (s', maf_loss s'))"

text \<open>\<^verbatim>\<open>update\<close> detaches the two means from the graph; their values stay.\<close>

definition MovingAverageFilter_update :: "maf \<Rightarrow> maf" where
  "MovingAverageFilter_update s = s\<lparr>maf_m1 := maf_m1 s, maf_m2 := maf_m2 s\<rparr>"

section \<open>QuadraticDiscriminantFilter\<close>

text \<open>
  The buffers of one class label: the source keeps them as attributes named
  \<^verbatim>\<open>m0a_<label>\<close>, ..., \<^verbatim>\<open>lamb_<label>\<close>. The means have shape \<open>1 \<times> nx\<close>, the
  covariances \<open>nx \<times> nx\<close>.
\<close>

record qdf_class =
  q_m0a :: "flt list list"
  q_m1a :: "flt list list"
  q_m0b :: "flt list list"
  q_m1b :: "flt list list"
  q_S0a :: "flt list list"
  q_S1a :: "flt list list"
  q_S0b :: "flt list list"
  q_S1b :: "flt list list"
  q_lama :: real
  q_lamb :: real

record qdf =
  qdf_classes :: "int list"
  qdf_nx :: nat
  qdf_attr :: "int \<Rightarrow> qdf_class option"
  qdf_delta :: real
  qdf_lamdiff :: real

text \<open>\<^verbatim>\<open>"{}_{}".format(name, label)\<close>: the decimal digits of the label after the name.\<close>

function str_nat :: "nat \<Rightarrow> string" where
  "str_nat n = (if n < 10 then [char_of (48 + n)] else str_nat (n div 10) @ [char_of (48 + n mod 10)])"
  by pat_completeness auto
termination
  by (relation "measure (\<lambda>n. n)") auto

definition str_int :: "int \<Rightarrow> string" where
  "str_int k = (if k < 0 then ''-'' @ str_nat (nat (- k)) else str_nat (nat k))"

definition format_name :: "string \<Rightarrow> int \<Rightarrow> string" where
  "format_name name label = name @ ''_'' @ str_int label"

definition eye :: "nat \<Rightarrow> 'a::{zero,one} list list" where
  "eye n = map (\<lambda>i. map (\<lambda>j. if i = j then 1 else 0) [0..<n]) [0..<n]"

definition qdf_class_init :: "nat \<Rightarrow> real \<Rightarrow> qdf_class" where
  "qdf_class_init nx lamdiff =
     \<lparr>q_m0a = [replicate nx 0], q_m1a = [replicate nx 0],
      q_m0b = [replicate nx 0], q_m1b = [replicate nx 0],
      q_S0a = eye nx, q_S1a = eye nx, q_S0b = eye nx, q_S1b = eye nx,
      q_lama = 0.2, q_lamb = 0.2 + lamdiff\<rparr>"

definition qdf_param_names :: "string list" where
  "qdf_param_names = [''m0a'', ''m1a'', ''m0b'', ''m1b'', ''S0a'', ''S1a'', ''S0b'', ''S1b'']"

text \<open>The constructor's loop over the class labels: ten buffers for each.\<close>

fun qdf_init_loop :: "nat \<Rightarrow> real \<Rightarrow> int list \<Rightarrow> module \<times> (int \<Rightarrow> qdf_class option)
    \<Rightarrow> error + module \<times> (int \<Rightarrow> qdf_class option)" where
  "qdf_init_loop nx lamdiff [] st = Inr st"
| "qdf_init_loop nx lamdiff (label # labels) (self, attr) =
     (case register_buffers
             (map (\<lambda>name. format_name name label) (qdf_param_names @ [''lama'', ''lamb''])) self of
        Inl e \<Rightarrow> Inl e
      | Inr self' \<Rightarrow>
          qdf_init_loop nx lamdiff labels (self', attr(label \<mapsto> qdf_class_init nx lamdiff)))"

definition QuadraticDiscriminantFilter_init :: "nat \<Rightarrow> int list \<Rightarrow> real \<Rightarrow> real \<Rightarrow> error + qdf" where
  "QuadraticDiscriminantFilter_init nx classes lamdiff delta =
     (let self = Module_init new_object
      in case qdf_init_loop nx lamdiff classes (self, Map.empty) of
           Inl e \<Rightarrow> Inl e
         | Inr (_, attr) \<Rightarrow>
             Inr \<lparr>qdf_classes = classes, qdf_nx = nx, qdf_attr = attr,
                  qdf_delta = delta, qdf_lamdiff = lamdiff\<rparr>)"

text \<open>
  \<^verbatim>\<open>update\<close>, for one label: the empirical means and covariances of the rows outside
  and inside the class, then the eight assignments
  \<^verbatim>\<open>forgetting + updating\<close> with \<^verbatim>\<open>forgetting = (1 - lam) * current\<close> and
  \<^verbatim>\<open>updating = lam * empirical\<close>, classifier a first.
\<close>

definition qdf_blend :: "real \<Rightarrow> flt list list \<Rightarrow> flt list list \<Rightarrow> flt list list" where
  "qdf_blend lam current empirical =
     (let forgetting = mscale (Fin (1 - lam)) current;
          updating = mscale (Fin lam) empirical
      in madd forgetting updating)"

definition qdf_update_class :: "nat \<Rightarrow> flt list list \<Rightarrow> int list \<Rightarrow> int \<Rightarrow> qdf_class \<Rightarrow> qdf_class" where
  "qdf_update_class nx x y label c =
     (let e_m0 = [torch_mean0 nx (rows_neq x y label)];
          e_m1 = [torch_mean0 nx (rows_eq x y label)];
          e_S0 = torch_cov0 nx (rows_neq x y label);
          e_S1 = torch_cov0 nx (rows_eq x y label)
      in c\<lparr>q_m0a := qdf_blend (q_lama c) (q_m0a c) e_m0,
           q_m1a := qdf_blend (q_lama c) (q_m1a c) e_m1,
           q_S0a := qdf_blend (q_lama c) (q_S0a c) e_S0,
           q_S1a := qdf_blend (q_lama c) (q_S1a c) e_S1,
           q_m0b := qdf_blend (q_lamb c) (q_m0b c) e_m0,
           q_m1b := qdf_blend (q_lamb c) (q_m1b c) e_m1,
           q_S0b := qdf_blend (q_lamb c) (q_S0b c) e_S0,
           q_S1b := qdf_blend (q_lamb c) (q_S1b c) e_S1\<rparr>)"

text \<open>
  The loop of \<^verbatim>\<open>update\<close>. The object is changed in place, so the state reached is
  returned also when a later label raises (a label without its attributes).
\<close>

fun qdf_update_loop :: "flt list list \<Rightarrow> int list \<Rightarrow> int list \<Rightarrow> qdf \<Rightarrow> qdf \<times> error option" where
  "qdf_update_loop x y [] s = (s, None)"
| "qdf_update_loop x y (label # labels) s =
     (case qdf_attr s label of
        None \<Rightarrow> (s, Some (AttributeError (format_name ''lama'' label)))
      | Some c \<Rightarrow>
          qdf_update_loop x y labels
            (s\<lparr>qdf_attr := (qdf_attr s)(label \<mapsto> qdf_update_class (qdf_nx s) x y label c)\<rparr>))"

definition QuadraticDiscriminantFilter_update :: "flt list list \<Rightarrow> int list \<Rightarrow> qdf \<Rightarrow> qdf \<times> error option" where
  "QuadraticDiscriminantFilter_update x y s = qdf_update_loop x y (qdf_classes s) s"

text \<open>
  \<^verbatim>\<open>cgll\<close>. \<^verbatim>\<open>torch.linalg.solve\<close> and \<^verbatim>\<open>torch.logdet\<close> are library functions: they are
  parameters of the model, the first one returning the solution or raising.
\<close>

type_synonym 'a solver = "'a list list \<Rightarrow> 'a list list \<Rightarrow> error + 'a list list"

definition cgll :: "flt solver \<Rightarrow> (flt list list \<Rightarrow> flt) \<Rightarrow> nat \<Rightarrow> flt list list \<Rightarrow> flt list list
    \<Rightarrow> flt list list \<Rightarrow> error + flt list" where
  "cgll solve logdet nx x m S =
     (let xm = map (\<lambda>r. vsub r (hd m)) x
      in case solve S (mtranspose nx xm) of
           Inl e \<Rightarrow> Inl e
         | Inr sol \<Rightarrow>
             (let resids = map2 (\<lambda>r t. sum_list (map2 (*) r t)) xm (mtranspose (length x) sol)
              in Inr (map (\<lambda>r. Fin (- 0.5) * (logdet S + r)) resids)))"

text \<open>The masks \<^verbatim>\<open>i0\<close>, \<^verbatim>\<open>i1\<close> as 0/1 factors, and \<^verbatim>\<open>batch_y = i1 * 2 - 1\<close>.\<close>

definition mask :: "bool \<Rightarrow> flt" where
  "mask b = (if b then Fin 1 else Fin 0)"

definition masked_sum :: "int list \<Rightarrow> int \<Rightarrow> flt list \<Rightarrow> flt list \<Rightarrow> flt" where
  "masked_sum y label ll0 ll1 =
     sum_list (map (\<lambda>(l, a0, a1). mask (l \<noteq> label) * a0 + mask (l = label) * a1) (zip y (zip ll0 ll1)))"

definition batch_y :: "int list \<Rightarrow> int \<Rightarrow> flt list" where
  "batch_y y label = map (\<lambda>l. mask (l = label) * Fin 2 - Fin 1) y"

text \<open>The adaptation of one class: the two branches that move the forgetting factors.\<close>

definition qdf_adapt :: "bool \<Rightarrow> real \<Rightarrow> real \<Rightarrow> qdf_class \<Rightarrow> qdf_class" where
  "qdf_adapt a_wins delta lamdiff c =
     (if a_wins then
        (let c' = c\<lparr>q_lama := clip (q_lama c - delta) 0 1\<rparr>
         in c'\<lparr>q_lamb := q_lama c' + lamdiff\<rparr>)
      else
        (let c' = c\<lparr>q_lamb := clip (q_lamb c + delta) 0 1\<rparr>
         in c'\<lparr>q_lama := q_lamb c' - lamdiff\<rparr>))"

text \<open>
  One pass of the loop of \<^verbatim>\<open>evaluate_loss\<close>: the four scores, the adaptation when
  \<^verbatim>\<open>update\<close> is set, and the class's share of the loss.
\<close>

definition qdf_eval_class :: "flt solver \<Rightarrow> (flt list list \<Rightarrow> flt) \<Rightarrow> bool \<Rightarrow> flt list list \<Rightarrow> int list
    \<Rightarrow> int \<Rightarrow> qdf \<Rightarrow> qdf \<times> (error + flt)" where
  "qdf_eval_class solve logdet upd x y label s =
     (case qdf_attr s label of
        None \<Rightarrow> (s, Inl (AttributeError (format_name ''m0a'' label)))
      | Some c \<Rightarrow>
        (case cgll solve logdet (qdf_nx s) x (q_m0a c) (q_S0a c) of Inl e \<Rightarrow> (s, Inl e) | Inr lla0 \<Rightarrow>
        (case cgll solve logdet (qdf_nx s) x (q_m1a c) (q_S1a c) of Inl e \<Rightarrow> (s, Inl e) | Inr lla1 \<Rightarrow>
        (case cgll solve logdet (qdf_nx s) x (q_m0b c) (q_S0b c) of Inl e \<Rightarrow> (s, Inl e) | Inr llb0 \<Rightarrow>
        (case cgll solve logdet (qdf_nx s) x (q_m1b c) (q_S1b c) of Inl e \<Rightarrow> (s, Inl e) | Inr llb1 \<Rightarrow>
          (let lla = masked_sum y label lla0 lla1;
               llb = masked_sum y label llb0 llb1;
               c' = (if upd \<and> flt_less llb lla then qdf_adapt True (qdf_delta s) (qdf_lamdiff s) c
                     else if upd then qdf_adapt False (qdf_delta s) (qdf_lamdiff s) c
                     else c);
               llra = dot (batch_y y label) (vsub lla1 lla0);
               llrb = dot (batch_y y label) (vsub llb1 llb0)
           in (s\<lparr>qdf_attr := (qdf_attr s)(label \<mapsto> c')\<rparr>, Inr ((llra + llrb) * Fin 0.5))))))))"

fun qdf_eval_loop :: "flt solver \<Rightarrow> (flt list list \<Rightarrow> flt) \<Rightarrow> bool \<Rightarrow> flt list list \<Rightarrow> int list
    \<Rightarrow> int list \<Rightarrow> flt \<Rightarrow> qdf \<Rightarrow> qdf \<times> (error + flt)" where
  "qdf_eval_loop solve logdet upd x y [] ll_loss s = (s, Inr ll_loss)"
| "qdf_eval_loop solve logdet upd x y (label # labels) ll_loss s =
     (case qdf_eval_class solve logdet upd x y label s of
        (s', Inl e) \<Rightarrow> (s', Inl e)
      | (s', Inr l) \<Rightarrow> qdf_eval_loop solve logdet upd x y labels (ll_loss + l) s')"

definition QuadraticDiscriminantFilter_evaluate_loss :: "flt solver \<Rightarrow> (flt list list \<Rightarrow> flt) \<Rightarrow> flt list list
    \<Rightarrow> int list \<Rightarrow> bool \<Rightarrow> qdf \<Rightarrow> qdf \<times> (error + flt)" where
  "QuadraticDiscriminantFilter_evaluate_loss solve logdet x y upd s =
     (case qdf_eval_loop solve logdet upd x y (qdf_classes s) 0 s of
        (s', Inl e) \<Rightarrow> (s', Inl e)
      | (s', Inr ll_loss) \<Rightarrow>
          if qdf_classes s = [] then (s', Inl ZeroDivisionError)
          else (s', Inr (div_count ll_loss (length (qdf_classes s)))))"

section \<open>MovingAvgLeastSquares\<close>

record mals =
  mals_bias :: bool
  mals_polynomial_order :: int
  mals_ny :: nat
  mals_Sxx0 :: "real list list"
  mals_Sxy0 :: "real list list"
  mals_Sxx1 :: "real list list"
  mals_Sxy1 :: "real list list"
  mals_lam0 :: real
  mals_lam1 :: real
  mals_delta :: real
  mals_lamdiff :: real

text \<open>
  The constructor's loop \<^verbatim>\<open>for i in range(1, polynomial_order + 1)\<close>, adding
  \<^verbatim>\<open>prod(arange(nx, nx + i)) / prod(arange(i) + 1)\<close>, a true division.
\<close>

definition mals_nx_poly :: "nat \<Rightarrow> int \<Rightarrow> real" where
  "mals_nx_poly nx polynomial_order =
     sum_list (map (\<lambda>i. real (prod_list [nx..<nx + i]) / real (prod_list (map (\<lambda>k. k + 1) [0..<i])))
                 [1..<nat (polynomial_order + 1)])"

text \<open>\<^verbatim>\<open>nx = int(nx_poly) + self.bias\<close>: the size of the accumulators.\<close>

definition mals_size :: "nat \<Rightarrow> int \<Rightarrow> bool \<Rightarrow> nat" where
  "mals_size nx polynomial_order bias =
     nat \<lfloor>mals_nx_poly nx polynomial_order\<rfloor> + (if bias then 1 else 0)"

definition zeros :: "nat \<Rightarrow> nat \<Rightarrow> 'a::zero list list" where
  "zeros m n = replicate m (replicate n 0)"

definition MovingAvgLeastSquares_init :: "nat \<Rightarrow> nat \<Rightarrow> real \<Rightarrow> real \<Rightarrow> bool \<Rightarrow> int \<Rightarrow> error + mals" where
  "MovingAvgLeastSquares_init nx ny lamdiff delta bias polynomial_order =
     (let self = Module_init new_object;
          n = mals_size nx polynomial_order bias
      in case register_buffers [''Sxx0'', ''Sxy0'', ''Sxx1'', ''Sxy1'', ''lam0'', ''lam1''] self of
           Inl e \<Rightarrow> Inl e
         | Inr _ \<Rightarrow>
             Inr \<lparr>mals_bias = bias, mals_polynomial_order = polynomial_order, mals_ny = ny,
                  mals_Sxx0 = eye n, mals_Sxy0 = zeros n ny,
                  mals_Sxx1 = eye n, mals_Sxy1 = zeros n ny,
                  mals_lam0 = 0.9, mals_lam1 = 0.9 + lamdiff,
                  mals_delta = delta, mals_lamdiff = lamdiff\<rparr>)"

text \<open>
  \<^verbatim>\<open>torch.combinations(idx, r, with_replacement=True)\<close> for a non-empty \<open>idx\<close>: the
  non-decreasing selections of \<open>r\<close> entries, in lexicographic order of the positions.
\<close>

fun combinations_wr :: "'a list \<Rightarrow> nat \<Rightarrow> 'a list list" where
  "combinations_wr xs 0 = [[]]"
| "combinations_wr [] (Suc r) = []"
| "combinations_wr (x # xs) (Suc r) =
     map ((#) x) (combinations_wr (x # xs) r) @ combinations_wr xs (Suc r)"

text \<open>\<^verbatim>\<open>x[:, C_idx].prod(dim=-1)\<close>, for one row of the batch.\<close>

definition gather_prod :: "nat list list \<Rightarrow> real list \<Rightarrow> real list" where
  "gather_prod C_idx r = map (\<lambda>c. prod_list (map (\<lambda>j. r ! j) c)) C_idx"

text \<open>The loop \<^verbatim>\<open>for i in range(1, self.polynomial_order)\<close> appending to \<^verbatim>\<open>x_list\<close>.\<close>

fun poly_loop :: "real list list \<Rightarrow> nat list \<Rightarrow> nat list \<Rightarrow> real list list list \<Rightarrow> real list list list" where
  "poly_loop x idx [] x_list = x_list"
| "poly_loop x idx (i # rest) x_list =
     (let C_idx = combinations_wr idx (i + 1)
      in poly_loop x idx rest (x_list @ [map (gather_prod C_idx) x]))"

text \<open>\<^verbatim>\<open>torch.column_stack\<close> of tensors with \<open>b\<close> rows each.\<close>

definition column_stack :: "nat \<Rightarrow> 'a list list list \<Rightarrow> 'a list list" where
  "column_stack b ts = map (\<lambda>k. concat (map (\<lambda>t. t ! k) ts)) [0..<b]"

text \<open>
  \<^verbatim>\<open>polynomial_expansion\<close> of a batch \<open>x\<close> of shape (\<open>length x\<close>, \<open>nx\<close>) with \<open>0 < nx\<close>.
\<close>

definition polynomial_expansion :: "int \<Rightarrow> nat \<Rightarrow> real list list \<Rightarrow> real list list" where
  "polynomial_expansion polynomial_order nx x =
     (let x_list = [x];
          idx = [0..<nx];
          x_list = poly_loop x idx [1..<nat polynomial_order] x_list
      in column_stack (length x) x_list)"

definition append_ones :: "real list list \<Rightarrow> real list list" where
  "append_ones x = map (\<lambda>r. r @ [1]) x"

definition mals_features :: "mals \<Rightarrow> nat \<Rightarrow> real list list \<Rightarrow> real list list" where
  "mals_features s nx x =
     (let x = polynomial_expansion (mals_polynomial_order s) nx x
      in if mals_bias s then append_ones x else x)"

definition MovingAvgLeastSquares_forward :: "real solver \<Rightarrow> mals \<Rightarrow> nat \<Rightarrow> real list list
    \<Rightarrow> error + real list list \<times> real list list" where
  "MovingAvgLeastSquares_forward solve s nx x =
     (let x = mals_features s nx x
      in case solve (mals_Sxx0 s) (mals_Sxy0 s) of Inl e \<Rightarrow> Inl e | Inr W0 \<Rightarrow>
        (case solve (mals_Sxx1 s) (mals_Sxy1 s) of Inl e \<Rightarrow> Inl e | Inr W1 \<Rightarrow>
           Inr (matmul (mals_ny s) x W0, matmul (mals_ny s) x W1)))"

text \<open>
  \<^verbatim>\<open>update\<close>: \<open>xx\<close> and \<open>xy\<close> are \<^verbatim>\<open>x.T @ x\<close> and \<^verbatim>\<open>x.T @ y\<close> of the expanded batch, whose
  width is the size of the accumulators.
\<close>

definition MovingAvgLeastSquares_update :: "nat \<Rightarrow> real list list \<Rightarrow> real list list \<Rightarrow> mals \<Rightarrow> mals" where
  "MovingAvgLeastSquares_update nx x y s =
     (let x = mals_features s nx x;
          n = length (mals_Sxx0 s);
          xx = matmul n (mtranspose n x) x;
          xy = matmul (mals_ny s) (mtranspose n x) y;
          s = s\<lparr>mals_Sxx0 := madd (mscale (mals_lam0 s) (mals_Sxx0 s)) xx\<rparr>;
          s = s\<lparr>mals_Sxy0 := madd (mscale (mals_lam0 s) (mals_Sxy0 s)) xy\<rparr>;
          s = s\<lparr>mals_Sxx1 := madd (mscale (mals_lam1 s) (mals_Sxx1 s)) xx\<rparr>;
          s = s\<lparr>mals_Sxy1 := madd (mscale (mals_lam1 s) (mals_Sxy1 s)) xy\<rparr>
      in s)"

text \<open>\<^verbatim>\<open>mse_loss(y, yhat, reduction="sum")\<close>.\<close>

definition mse_sum :: "real list list \<Rightarrow> real list list \<Rightarrow> real" where
  "mse_sum y yhat = sum_list (map (\<lambda>d. d * d) (concat (map2 vsub y yhat)))"

definition mals_adapt :: "bool \<Rightarrow> mals \<Rightarrow> mals" where
  "mals_adapt fast_wins s =
     (if fast_wins then
        (let s' = s\<lparr>mals_lam0 := clip (mals_lam0 s - mals_delta s) 0 1\<rparr>
         in s'\<lparr>mals_lam1 := mals_lam0 s' + mals_lamdiff s'\<rparr>)
      else
        (let s' = s\<lparr>mals_lam1 := clip (mals_lam1 s + mals_delta s) 0 1\<rparr>
         in s'\<lparr>mals_lam0 := mals_lam1 s' - mals_lamdiff s'\<rparr>))"

definition MovingAvgLeastSquares_evaluate_loss :: "real list list \<Rightarrow> real list list \<Rightarrow> real list list
    \<Rightarrow> mals \<Rightarrow> mals \<times> real" where
  "MovingAvgLeastSquares_evaluate_loss yhat0 yhat1 y s =
     (let l0 = mse_sum y yhat0;
          l1 = mse_sum y yhat1
      in (mals_adapt (l0 < l1) s, (l0 + l1) * 0.5))"

section \<open>LinearProjection and LinearDisentangle\<close>

text \<open>
  \<^verbatim>\<open>nn.Linear(in_dim, out_dim, bias)\<close>: a weight of shape \<open>out_dim \<times> in_dim\<close> and, with
  \<^verbatim>\<open>bias=True\<close>, a bias of length \<open>out_dim\<close>; the layer maps \<open>z\<close> to \<open>z @ weight.T + bias\<close>.
  The initial values are drawn at random by the library: they are arguments here.
\<close>

record linear =
  lin_in :: nat
  lin_out :: nat
  lin_weight :: "real list list"
  lin_bias :: "real list option"

definition Linear_forward :: "linear \<Rightarrow> real list list \<Rightarrow> real list list" where
  "Linear_forward l z =
     map (\<lambda>r. let v = map (dot r) (lin_weight l)
              in case lin_bias l of None \<Rightarrow> v | Some b \<Rightarrow> vadd v b) z"

definition msub :: "'a::minus list list \<Rightarrow> 'a list list \<Rightarrow> 'a list list" where
  "msub A B = map2 vsub A B"

text \<open>
  The lines shared by the two \<^verbatim>\<open>forward\<close> methods: the prediction \<open>x\<close>, the Gram matrix
  \<open>nrm\<close> of the weight and \<^verbatim>\<open>z - torch.linalg.solve(nrm, x.T).T @ w\<close>.
\<close>

definition null_space :: "real solver \<Rightarrow> linear \<Rightarrow> real list list \<Rightarrow> error + real list list \<times> real list list" where
  "null_space solve decoder z =
     (let x = Linear_forward decoder z;
          w = lin_weight decoder;
          nrm = matmul (lin_out decoder) w (mtranspose (lin_in decoder) w)
      in case solve nrm (mtranspose (lin_out decoder) x) of
           Inl e \<Rightarrow> Inl e
         | Inr sol \<Rightarrow>
             Inr (x, msub z (matmul (lin_in decoder) (mtranspose (length z) sol) w)))"



text \<open>The layers of the reversal branch, as the constructor stacks them.\<close>

datatype layer =
    GradientReversalLayer real
  | Linear nat nat bool
  | ReLU
  | ReversalEnsemble nat nat
  | MLPEnsemble nat nat nat

record disentangle =
  dis_do_detach :: bool
  dis_decoder :: linear
  dis_reversal :: "layer list option"

definition LinearDisentangle_init :: "linear \<Rightarrow> string \<Rightarrow> real \<Rightarrow> bool \<Rightarrow> nat option \<Rightarrow> error + disentangle" where
  "LinearDisentangle_init decoder reversal alpha do_detach n_models =
     (let in_dim = lin_in decoder;
          out_dim = lin_out decoder;
          rev =
            (if reversal = ''mlp'' then
               Some [GradientReversalLayer alpha, Linear in_dim in_dim True, ReLU,
                     Linear in_dim in_dim True, ReLU, Linear in_dim out_dim True]
             else if reversal = ''linear'' then
               Some [GradientReversalLayer alpha, Linear in_dim out_dim True]
             else if reversal = ''ensemble'' then
               (case n_models of
                  None \<Rightarrow> Some [GradientReversalLayer alpha, ReversalEnsemble in_dim out_dim]
                | Some n \<Rightarrow>
                    if n = 0 then Some [GradientReversalLayer alpha, ReversalEnsemble in_dim out_dim]
                    else Some [GradientReversalLayer alpha, MLPEnsemble in_dim out_dim n])
             else None)
      in Inr \<lparr>dis_do_detach = do_detach, dis_decoder = decoder, dis_reversal = rev\<rparr>)"

record 'g disentangle_out =
  dout_v :: "real list list"
  dout_mu_null :: "real list list"
  dout_gr :: "'g option"

text \<open>
  \<^verbatim>\<open>LinearDisentangle.forward\<close>; what the reversal branch computes from the null-space
  latent is the parameter \<open>run\<close>.
\<close>

definition LinearDisentangle_forward :: "real solver \<Rightarrow> (layer list \<Rightarrow> real list list \<Rightarrow> 'g) \<Rightarrow> disentangle
    \<Rightarrow> real list list \<Rightarrow> error + 'g disentangle_out" where
  "LinearDisentangle_forward solve run self z =
     (case null_space solve (dis_decoder self) z of
        Inl e \<Rightarrow> Inl e
      | Inr (x, z_null) \<Rightarrow>
          Inr \<lparr>dout_v = x, dout_mu_null = z_null,
               dout_gr = (case dis_reversal self of None \<Rightarrow> None | Some net \<Rightarrow> Some (run net z_null))\<rparr>)"

section \<open>Sequences of calls\<close>

text \<open>
  The calls a training loop makes on a tracker after constructing it. A call that raises
  leaves the object as it had changed it so far, and the next call finds that state.
\<close>

datatype maf_call =
    MafEvaluateLoss "flt list list" "int list"
  | MafUpdate

fun maf_do :: "maf_call \<Rightarrow> maf \<Rightarrow> maf" where
  "maf_do (MafEvaluateLoss x y) s = fst (MovingAverageFilter_evaluate_loss x y s)"
| "maf_do MafUpdate s = MovingAverageFilter_update s"

fun maf_run :: "maf_call list \<Rightarrow> maf \<Rightarrow> maf" where
  "maf_run [] s = s"
| "maf_run (c # cs) s = maf_run cs (maf_do c s)"

datatype qdf_call =
    QdfEvaluateLoss "flt list list" "int list" bool
  | QdfUpdate "flt list list" "int list"

fun qdf_do :: "flt solver \<Rightarrow> (flt list list \<Rightarrow> flt) \<Rightarrow> qdf_call \<Rightarrow> qdf \<Rightarrow> qdf" where
  "qdf_do solve logdet (QdfEvaluateLoss x y upd) s =
     fst (QuadraticDiscriminantFilter_evaluate_loss solve logdet x y upd s)"
| "qdf_do solve logdet (QdfUpdate x y) s = fst (QuadraticDiscriminantFilter_update x y s)"

fun qdf_run :: "flt solver \<Rightarrow> (flt list list \<Rightarrow> flt) \<Rightarrow> qdf_call list \<Rightarrow> qdf \<Rightarrow> qdf" where
  "qdf_run solve logdet [] s = s"
| "qdf_run solve logdet (c # cs) s = qdf_run solve logdet cs (qdf_do solve logdet c s)"

datatype mals_call =
    MalsEvaluateLoss "real list list" "real list list" "real list list"
  | MalsUpdate nat "real list list" "real list list"

fun mals_do :: "mals_call \<Rightarrow> mals \<Rightarrow> mals" where
  "mals_do (MalsEvaluateLoss yhat0 yhat1 y) s = fst (MovingAvgLeastSquares_evaluate_loss yhat0 yhat1 y s)"
| "mals_do (MalsUpdate nx x y) s = MovingAvgLeastSquares_update nx x y s"

fun mals_run :: "mals_call list \<Rightarrow> mals \<Rightarrow> mals" where
  "mals_run [] s = s"
| "mals_run (c # cs) s = mals_run cs (mals_do c s)"

section \<open>Invariants of the forgetting factors\<close>

text \<open>The two factor vectors of the mean tracker have one entry for each class.\<close>

definition maf_shape :: "maf \<Rightarrow> bool" where
  "maf_shape s =
     (length (maf_lam1 s) = length (maf_classes s) \<and> length (maf_lam2 s) = length (maf_classes s))"

text \<open>The slow factor minus the fast factor is the gap, for every class.\<close>

definition maf_gap :: "maf \<Rightarrow> bool" where
  "maf_gap s = (maf_shape s \<and>
     (\<forall>i < length (maf_classes s). maf_lam2 s ! i - maf_lam1 s ! i = maf_lamdiff s))"

text \<open>Every tracked class has its attributes, and they satisfy \<open>P\<close>.\<close>

definition qdf_all :: "(qdf_class \<Rightarrow> bool) \<Rightarrow> qdf \<Rightarrow> bool" where
  "qdf_all P s = (\<forall>label \<in> set (qdf_classes s). \<exists>c. qdf_attr s label = Some c \<and> P c)"

definition qdf_gap :: "qdf \<Rightarrow> bool" where
  "qdf_gap s = qdf_all (\<lambda>c. q_lamb c - q_lama c = qdf_lamdiff s) s"

definition mals_gap :: "mals \<Rightarrow> bool" where
  "mals_gap s = (mals_lam1 s - mals_lam0 s = mals_lamdiff s)"

text \<open>Both factors lie in the unit interval, for every class.\<close>

definition unit_interval :: "real \<Rightarrow> bool" where
  "unit_interval v = (0 \<le> v \<and> v \<le> 1)"

definition maf_in_range :: "maf \<Rightarrow> bool" where
  "maf_in_range s = (maf_shape s \<and>
     (\<forall>i < length (maf_classes s). unit_interval (maf_lam1 s ! i) \<and> unit_interval (maf_lam2 s ! i)))"

definition qdf_in_range :: "qdf \<Rightarrow> bool" where
  "qdf_in_range s = qdf_all (\<lambda>c. unit_interval (q_lama c) \<and> unit_interval (q_lamb c)) s"

definition mals_in_range :: "mals \<Rightarrow> bool" where
  "mals_in_range s = (unit_interval (mals_lam0 s) \<and> unit_interval (mals_lam1 s))"

text \<open>The shapes of the accumulators: \<open>m \<times> n\<close> tensors.\<close>

definition is_matrix :: "nat \<Rightarrow> nat \<Rightarrow> 'a list list \<Rightarrow> bool" where
  "is_matrix m n A = (length A = m \<and> (\<forall>r \<in> set A. length r = n))"

definition maf_rows :: "maf \<Rightarrow> bool" where
  "maf_rows s = (is_matrix (length (maf_classes s)) (maf_nx s) (maf_m1 s) \<and>
                is_matrix (length (maf_classes s)) (maf_nx s) (maf_m2 s))"

definition qdf_class_shape :: "nat \<Rightarrow> qdf_class \<Rightarrow> bool" where
  "qdf_class_shape nx c =
     (is_matrix 1 nx (q_m0a c) \<and> is_matrix 1 nx (q_m1a c) \<and>
      is_matrix 1 nx (q_m0b c) \<and> is_matrix 1 nx (q_m1b c) \<and>
      is_matrix nx nx (q_S0a c) \<and> is_matrix nx nx (q_S1a c) \<and>
      is_matrix nx nx (q_S0b c) \<and> is_matrix nx nx (q_S1b c))"


text \<open>
  For the examples: the solver on a system with a \<open>1 \<times> 1\<close> matrix, which divides the
  right-hand sides and raises on the singular matrix.
\<close>

definition solve_1x1 :: "real solver" where
  "solve_1x1 A B =
     (case A of
        [[a]] \<Rightarrow> if a = 0 then Inl LinAlgError else Inr (map (map (\<lambda>v. v / a)) B)
      | _ \<Rightarrow> Inl LinAlgError)"





section \<open>Properties\<close>

lemma register_buffer_new_object:
  "register_buffer name new_object =
     Inl (AttributeError ''cannot assign buffer before Module.__init__() call'')"
  by (simp add: register_buffer_def new_object_def)

subsection \<open>The mean tracker's loop\<close>

lemma maf_adapt_fields [simp]:
  "maf_classes (maf_adapt b i s) = maf_classes s"
  "maf_nx (maf_adapt b i s) = maf_nx s"
  "maf_m1 (maf_adapt b i s) = maf_m1 s"
  "maf_m2 (maf_adapt b i s) = maf_m2 s"
  "maf_delta (maf_adapt b i s) = maf_delta s"
  "maf_lamdiff (maf_adapt b i s) = maf_lamdiff s"
  "length (maf_lam1 (maf_adapt b i s)) = length (maf_lam1 s)"
  "length (maf_lam2 (maf_adapt b i s)) = length (maf_lam2 s)"
  by (simp_all add: maf_adapt_def Let_def)

lemma maf_class_step_fields [simp]:
  "maf_classes (maf_class_step x y i label s) = maf_classes s"
  "maf_nx (maf_class_step x y i label s) = maf_nx s"
  "maf_delta (maf_class_step x y i label s) = maf_delta s"
  "maf_lamdiff (maf_class_step x y i label s) = maf_lamdiff s"
  by (simp_all add: maf_class_step_def Let_def)

lemma maf_class_step_lam:
  "maf_lam1 (maf_class_step x y i label s) =
     maf_lam1 (maf_adapt (flt_less (linalg_norm (vsub (torch_mean0 (maf_nx s) (rows_eq x y label)) (maf_m1 s ! i)))
                                   (linalg_norm (vsub (torch_mean0 (maf_nx s) (rows_eq x y label)) (maf_m2 s ! i)))) i s)"
  "maf_lam2 (maf_class_step x y i label s) =
     maf_lam2 (maf_adapt (flt_less (linalg_norm (vsub (torch_mean0 (maf_nx s) (rows_eq x y label)) (maf_m1 s ! i)))
                                   (linalg_norm (vsub (torch_mean0 (maf_nx s) (rows_eq x y label)) (maf_m2 s ! i)))) i s)"
  by (simp_all add: maf_class_step_def Let_def)

lemma maf_adapt_gap:
  assumes "maf_gap s" "i < length (maf_classes s)"
  shows "maf_gap (maf_adapt b i s)"
  using assms
  by (auto simp: maf_gap_def maf_shape_def maf_adapt_def Let_def nth_list_update)

lemma maf_gap_cong:
  assumes "maf_gap s" "maf_lam1 t = maf_lam1 s" "maf_lam2 t = maf_lam2 s"
    "maf_classes t = maf_classes s" "maf_lamdiff t = maf_lamdiff s"
  shows "maf_gap t"
  using assms by (simp add: maf_gap_def maf_shape_def)

lemma maf_class_step_gap:
  assumes "maf_gap s" "i < length (maf_classes s)"
  shows "maf_gap (maf_class_step x y i label s)"
  by (rule maf_gap_cong [OF maf_adapt_gap [OF assms]]) (simp_all add: maf_class_step_lam)

lemma maf_loop_classes [simp]: "maf_classes (maf_loop x y i labels s) = maf_classes s"
  by (induction labels arbitrary: i s) simp_all

lemma maf_loop_gap:
  assumes "maf_gap s" "i + length labels \<le> length (maf_classes s)"
  shows "maf_gap (maf_loop x y i labels s)"
  using assms
proof (induction labels arbitrary: i s)
  case Nil
  then show ?case by simp
next
  case (Cons l ls)
  have "maf_gap (maf_class_step x y i l s)"
    using Cons.prems by (intro maf_class_step_gap) simp_all
  then show ?case using Cons.prems by (simp add: Cons.IH)
qed

lemma maf_do_gap:
  assumes "maf_gap s"
  shows "maf_gap (maf_do c s)"
proof (cases c)
  case (MafEvaluateLoss x y)
  then show ?thesis
    using assms by (simp add: MovingAverageFilter_evaluate_loss_def Let_def maf_loop_gap)
next
  case MafUpdate
  then show ?thesis
    using assms by (simp add: MovingAverageFilter_update_def maf_gap_def maf_shape_def)
qed

lemma maf_run_gap: "maf_gap s \<Longrightarrow> maf_gap (maf_run cs s)"
  by (induction cs arbitrary: s) (simp_all add: maf_do_gap)

lemma maf_fields_gap: "maf_gap (maf_fields nx classes lamdiff delta)"
  by (simp add: maf_gap_def maf_shape_def maf_fields_def Let_def)

lemma clip_unit: "unit_interval (clip v 0 1)"
  by (simp add: unit_interval_def clip_def)

lemma fast_win_unit:
  assumes "0 \<le> a" "a + d \<le> 1" "0 \<le> e" "0 \<le> (d::real)"
  shows "unit_interval (clip (a - e) 0 1)" "unit_interval (clip (a - e) 0 1 + d)"
  using assms by (auto simp: unit_interval_def clip_def)

lemma slow_win_unit:
  assumes "0 \<le> b - d" "b \<le> 1" "0 \<le> e" "0 \<le> (d::real)"
  shows "unit_interval (clip (b + e) 0 1)" "unit_interval (clip (b + e) 0 1 - d)"
  using assms by (auto simp: unit_interval_def clip_def)

lemma maf_adapt_range:
  assumes "maf_gap s" "maf_in_range s" "0 \<le> maf_delta s" "0 \<le> maf_lamdiff s"
    "i < length (maf_classes s)"
  shows "maf_in_range (maf_adapt b i s)"
proof -
  have sh: "length (maf_lam1 s) = length (maf_classes s)" "length (maf_lam2 s) = length (maf_classes s)"
    using assms(1) by (simp_all add: maf_gap_def maf_shape_def)
  have g: "maf_lam2 s ! i = maf_lam1 s ! i + maf_lamdiff s"
    using assms(1,5) by (simp add: maf_gap_def algebra_simps)
  have r: "0 \<le> maf_lam1 s ! i" "maf_lam2 s ! i \<le> 1"
    using assms(2,5) by (simp_all add: maf_in_range_def unit_interval_def)
  have rest: "\<And>j. j < length (maf_classes s) \<Longrightarrow>
      unit_interval (maf_lam1 s ! j) \<and> unit_interval (maf_lam2 s ! j)"
    using assms(2) by (simp add: maf_in_range_def)
  show ?thesis
  proof (cases b)
    case True
    have f: "unit_interval (clip (maf_lam1 s ! i - maf_delta s) 0 1)"
      "unit_interval (clip (maf_lam1 s ! i - maf_delta s) 0 1 + maf_lamdiff s)"
      using r g assms(3,4)
        fast_win_unit [of "maf_lam1 s ! i" "maf_lamdiff s" "maf_delta s"] by simp_all
    show ?thesis
      using True sh f rest assms(5)
      by (simp add: maf_in_range_def maf_shape_def maf_adapt_def Let_def nth_list_update)
  next
    case False
    have f: "unit_interval (clip (maf_lam2 s ! i + maf_delta s) 0 1)"
      "unit_interval (clip (maf_lam2 s ! i + maf_delta s) 0 1 - maf_lamdiff s)"
      using r g assms(3,4)
        slow_win_unit [of "maf_lam2 s ! i" "maf_lamdiff s" "maf_delta s"] by simp_all
    show ?thesis
      using False sh f rest assms(5)
      by (simp add: maf_in_range_def maf_shape_def maf_adapt_def Let_def nth_list_update)
  qed
qed

lemma maf_in_range_cong:
  assumes "maf_in_range s" "maf_lam1 t = maf_lam1 s" "maf_lam2 t = maf_lam2 s"
    "maf_classes t = maf_classes s"
  shows "maf_in_range t"
  using assms by (simp add: maf_in_range_def maf_shape_def)

lemma maf_class_step_range:
  assumes "maf_gap s" "maf_in_range s" "0 \<le> maf_delta s" "0 \<le> maf_lamdiff s"
    "i < length (maf_classes s)"
  shows "maf_in_range (maf_class_step x y i label s)"
  by (rule maf_in_range_cong [OF maf_adapt_range [OF assms]]) (simp_all add: maf_class_step_lam)

lemma maf_loop_consts [simp]:
  "maf_delta (maf_loop x y i labels s) = maf_delta s"
  "maf_lamdiff (maf_loop x y i labels s) = maf_lamdiff s"
  "maf_nx (maf_loop x y i labels s) = maf_nx s"
  by (induction labels arbitrary: i s) simp_all

lemma maf_loop_range:
  assumes "maf_gap s" "maf_in_range s" "0 \<le> maf_delta s" "0 \<le> maf_lamdiff s"
    "i + length labels \<le> length (maf_classes s)"
  shows "maf_in_range (maf_loop x y i labels s)"
  using assms
proof (induction labels arbitrary: i s)
  case Nil
  then show ?case by simp
next
  case (Cons l ls)
  have i: "i < length (maf_classes s)" using Cons.prems(5) by simp
  have "maf_gap (maf_class_step x y i l s)"
    using Cons.prems(1) i by (rule maf_class_step_gap)
  moreover have "maf_in_range (maf_class_step x y i l s)"
    using Cons.prems(1-4) i by (rule maf_class_step_range)
  ultimately show ?case using Cons.prems by (simp add: Cons.IH)
qed

lemma maf_do_consts [simp]:
  "maf_delta (maf_do c s) = maf_delta s"
  "maf_lamdiff (maf_do c s) = maf_lamdiff s"
  "maf_classes (maf_do c s) = maf_classes s"
  by (cases c; simp add: MovingAverageFilter_evaluate_loss_def Let_def MovingAverageFilter_update_def)+

lemma maf_do_range:
  assumes "maf_gap s" "maf_in_range s" "0 \<le> maf_delta s" "0 \<le> maf_lamdiff s"
  shows "maf_in_range (maf_do c s)"
proof (cases c)
  case (MafEvaluateLoss x y)
  then show ?thesis
    using assms by (simp add: MovingAverageFilter_evaluate_loss_def Let_def maf_loop_range)
next
  case MafUpdate
  then show ?thesis
    using assms by (simp add: MovingAverageFilter_update_def maf_in_range_def maf_shape_def)
qed

lemma maf_run_range:
  assumes "maf_gap s" "maf_in_range s" "0 \<le> maf_delta s" "0 \<le> maf_lamdiff s"
  shows "maf_in_range (maf_run cs s)"
  using assms
  by (induction cs arbitrary: s) (simp_all add: maf_do_gap maf_do_range)

lemma maf_fields_range:
  assumes "0 \<le> lamdiff" "lamdiff \<le> 0.5"
  shows "maf_in_range (maf_fields nx classes lamdiff delta)"
  using assms by (simp add: maf_in_range_def maf_shape_def maf_fields_def Let_def unit_interval_def)

subsection \<open>The discriminant tracker's loops\<close>

lemma qdf_adapt_gap: "q_lamb (qdf_adapt b delta lamdiff c) - q_lama (qdf_adapt b delta lamdiff c) = lamdiff"
  by (simp add: qdf_adapt_def Let_def)

lemma qdf_adapt_range:
  assumes "q_lamb c - q_lama c = lamdiff" "unit_interval (q_lama c)" "unit_interval (q_lamb c)"
    "0 \<le> delta" "0 \<le> lamdiff"
  shows "unit_interval (q_lama (qdf_adapt b delta lamdiff c)) \<and>
         unit_interval (q_lamb (qdf_adapt b delta lamdiff c))"
proof (cases b)
  case True
  then show ?thesis
    using fast_win_unit [of "q_lama c" lamdiff delta] assms
    by (simp add: qdf_adapt_def Let_def unit_interval_def)
next
  case False
  then show ?thesis
    using slow_win_unit [of "q_lamb c" lamdiff delta] assms
    by (simp add: qdf_adapt_def Let_def unit_interval_def)
qed

lemma qdf_update_class_lam [simp]:
  "q_lama (qdf_update_class nx x y label c) = q_lama c"
  "q_lamb (qdf_update_class nx x y label c) = q_lamb c"
  by (simp_all add: qdf_update_class_def Let_def)

lemma qdf_all_upd:
  assumes "qdf_all P s" "qdf_attr s l = Some c" "P c \<Longrightarrow> P c'"
  shows "qdf_all P (s\<lparr>qdf_attr := (qdf_attr s)(l \<mapsto> c')\<rparr>)"
  using assms by (auto simp: qdf_all_def)

lemma qdf_update_loop_consts [simp]:
  "qdf_classes (fst (qdf_update_loop x y labels s)) = qdf_classes s"
  "qdf_delta (fst (qdf_update_loop x y labels s)) = qdf_delta s"
  "qdf_lamdiff (fst (qdf_update_loop x y labels s)) = qdf_lamdiff s"
  by (induction labels arbitrary: s; simp split: option.splits)+

lemma qdf_update_loop_all:
  assumes "qdf_all P s" "\<And>c l. P c \<Longrightarrow> P (qdf_update_class (qdf_nx s) x y l c)"
  shows "qdf_all P (fst (qdf_update_loop x y labels s))"
  using assms
proof (induction labels arbitrary: s)
  case Nil
  then show ?case by simp
next
  case (Cons l ls)
  show ?case
  proof (cases "qdf_attr s l")
    case None
    then show ?thesis using Cons.prems by simp
  next
    case (Some c)
    let ?s = "s\<lparr>qdf_attr := (qdf_attr s)(l \<mapsto> qdf_update_class (qdf_nx s) x y l c)\<rparr>"
    have "qdf_all P ?s"
      using Cons.prems(1) Some Cons.prems(2) by (rule qdf_all_upd)
    moreover have "\<And>c l. P c \<Longrightarrow> P (qdf_update_class (qdf_nx ?s) x y l c)"
      using Cons.prems(2) by simp
    ultimately have "qdf_all P (fst (qdf_update_loop x y ls ?s))"
      by (rule Cons.IH)
    then show ?thesis using Some by simp
  qed
qed

lemma qdf_eval_class_consts [simp]:
  "qdf_classes (fst (qdf_eval_class solve logdet upd x y label s)) = qdf_classes s"
  "qdf_delta (fst (qdf_eval_class solve logdet upd x y label s)) = qdf_delta s"
  "qdf_lamdiff (fst (qdf_eval_class solve logdet upd x y label s)) = qdf_lamdiff s"
  "qdf_nx (fst (qdf_eval_class solve logdet upd x y label s)) = qdf_nx s"
  by (simp_all add: qdf_eval_class_def Let_def split: option.splits sum.splits)

lemma qdf_eval_class_all:
  assumes "qdf_all P s" "\<And>c b. P c \<Longrightarrow> P (qdf_adapt b (qdf_delta s) (qdf_lamdiff s) c)"
  shows "qdf_all P (fst (qdf_eval_class solve logdet upd x y label s))"
proof (cases "qdf_attr s label")
  case None
  then show ?thesis using assms(1) by (simp add: qdf_eval_class_def)
next
  case (Some c)
  have upd: "\<And>c'. (P c \<Longrightarrow> P c') \<Longrightarrow> qdf_all P (s\<lparr>qdf_attr := (qdf_attr s)(label \<mapsto> c')\<rparr>)"
    using assms(1) Some by (rule qdf_all_upd)
  show ?thesis
    using Some assms(1) assms(2)
    by (auto simp: qdf_eval_class_def Let_def intro!: upd split: sum.splits)
qed

lemma qdf_eval_loop_consts [simp]:
  "qdf_classes (fst (qdf_eval_loop solve logdet upd x y labels acc s)) = qdf_classes s"
  "qdf_delta (fst (qdf_eval_loop solve logdet upd x y labels acc s)) = qdf_delta s"
  "qdf_lamdiff (fst (qdf_eval_loop solve logdet upd x y labels acc s)) = qdf_lamdiff s"
proof (induction labels arbitrary: acc s)
  case Nil
  { case 1 show ?case by simp next case 2 show ?case by simp next case 3 show ?case by simp }
next
  case (Cons l ls)
  { case 1
    show ?case
      using Cons.IH(1) qdf_eval_class_consts(1) [of solve logdet upd x y l s]
      by (cases "qdf_eval_class solve logdet upd x y l s") (auto split: sum.splits)
  next
    case 2
    show ?case
      using Cons.IH(2) qdf_eval_class_consts(2) [of solve logdet upd x y l s]
      by (cases "qdf_eval_class solve logdet upd x y l s") (auto split: sum.splits)
  next
    case 3
    show ?case
      using Cons.IH(3) qdf_eval_class_consts(3) [of solve logdet upd x y l s]
      by (cases "qdf_eval_class solve logdet upd x y l s") (auto split: sum.splits)
  }
qed

lemma qdf_eval_loop_all:
  assumes "qdf_all P s" "\<And>c b. P c \<Longrightarrow> P (qdf_adapt b (qdf_delta s) (qdf_lamdiff s) c)"
  shows "qdf_all P (fst (qdf_eval_loop solve logdet upd x y labels acc s))"
  using assms
proof (induction labels arbitrary: acc s)
  case Nil
  then show ?case by simp
next
  case (Cons l ls)
  obtain s' r where step: "qdf_eval_class solve logdet upd x y l s = (s', r)"
    by (cases "qdf_eval_class solve logdet upd x y l s")
  have s': "s' = fst (qdf_eval_class solve logdet upd x y l s)"
    using step by simp
  have inv: "qdf_all P s'"
    unfolding s' using Cons.prems by (rule qdf_eval_class_all)
  show ?case
  proof (cases r)
    case (Inl e)
    then show ?thesis using step inv by simp
  next
    case (Inr v)
    have "qdf_all P (fst (qdf_eval_loop solve logdet upd x y ls (acc + v) s'))"
      using inv Cons.prems(2) by (intro Cons.IH) (simp_all add: s')
    then show ?thesis using step Inr by simp
  qed
qed

lemma qdf_do_consts [simp]:
  "qdf_classes (qdf_do solve logdet c s) = qdf_classes s"
  "qdf_delta (qdf_do solve logdet c s) = qdf_delta s"
  "qdf_lamdiff (qdf_do solve logdet c s) = qdf_lamdiff s"
proof -
  have e: "\<And>x y upd. fst (QuadraticDiscriminantFilter_evaluate_loss solve logdet x y upd s) =
      fst (qdf_eval_loop solve logdet upd x y (qdf_classes s) 0 s)"
    by (simp add: QuadraticDiscriminantFilter_evaluate_loss_def split: prod.splits sum.splits)
  show "qdf_classes (qdf_do solve logdet c s) = qdf_classes s"
    "qdf_delta (qdf_do solve logdet c s) = qdf_delta s"
    "qdf_lamdiff (qdf_do solve logdet c s) = qdf_lamdiff s"
    by (cases c; simp add: e QuadraticDiscriminantFilter_update_def)+
qed

lemma qdf_do_all:
  assumes "qdf_all P s" "\<And>c b. P c \<Longrightarrow> P (qdf_adapt b (qdf_delta s) (qdf_lamdiff s) c)"
    "\<And>c l x y. P c \<Longrightarrow> P (qdf_update_class (qdf_nx s) x y l c)"
  shows "qdf_all P (qdf_do solve logdet c s)"
proof (cases c)
  case (QdfEvaluateLoss x y upd)
  have "fst (QuadraticDiscriminantFilter_evaluate_loss solve logdet x y upd s) =
      fst (qdf_eval_loop solve logdet upd x y (qdf_classes s) 0 s)"
    by (simp add: QuadraticDiscriminantFilter_evaluate_loss_def split: prod.splits sum.splits)
  then show ?thesis
    using QdfEvaluateLoss qdf_eval_loop_all [OF assms(1,2)] by simp
next
  case (QdfUpdate x y)
  then show ?thesis
    using qdf_update_loop_all [OF assms(1), of x y] assms(3)
    by (simp add: QuadraticDiscriminantFilter_update_def)
qed

lemma qdf_run_consts [simp]:
  "qdf_classes (qdf_run solve logdet cs s) = qdf_classes s"
  "qdf_delta (qdf_run solve logdet cs s) = qdf_delta s"
  "qdf_lamdiff (qdf_run solve logdet cs s) = qdf_lamdiff s"
  by (induction cs arbitrary: s) simp_all

lemma qdf_run_all:
  assumes "qdf_all P s" "\<And>c b. P c \<Longrightarrow> P (qdf_adapt b (qdf_delta s) (qdf_lamdiff s) c)"
    "\<And>c l x y n. P c \<Longrightarrow> P (qdf_update_class n x y l c)"
  shows "qdf_all P (qdf_run solve logdet cs s)"
  using assms(1,2)
proof (induction cs arbitrary: s)
  case Nil
  then show ?case by simp
next
  case (Cons c cs)
  have "qdf_all P (qdf_do solve logdet c s)"
    using Cons.prems assms(3) by (intro qdf_do_all) simp_all
  then show ?case using Cons.prems(2) by (simp add: Cons.IH)
qed

lemma qdf_run_gap:
  assumes "qdf_gap s"
  shows "qdf_gap (qdf_run solve logdet cs s)"
proof -
  have "qdf_all (\<lambda>c. q_lamb c - q_lama c = qdf_lamdiff s) (qdf_run solve logdet cs s)"
    using assms unfolding qdf_gap_def
    by (rule qdf_run_all) (simp_all add: qdf_adapt_gap)
  then show ?thesis by (simp add: qdf_gap_def)
qed

lemma qdf_run_range:
  assumes "qdf_gap s" "qdf_in_range s" "0 \<le> qdf_delta s" "0 \<le> qdf_lamdiff s"
  shows "qdf_in_range (qdf_run solve logdet cs s)"
proof -
  let ?P = "\<lambda>c::qdf_class. q_lamb c - q_lama c = qdf_lamdiff s \<and> unit_interval (q_lama c) \<and> unit_interval (q_lamb c)"
  have "qdf_all ?P s"
    using assms(1,2) by (fastforce simp: qdf_gap_def qdf_in_range_def qdf_all_def)
  then have "qdf_all ?P (qdf_run solve logdet cs s)"
  proof (rule qdf_run_all)
    fix c b
    assume "?P c"
    then show "?P (qdf_adapt b (qdf_delta s) (qdf_lamdiff s) c)"
      using assms(3,4) qdf_adapt_range [of c "qdf_lamdiff s" "qdf_delta s" b]
      by (simp add: qdf_adapt_gap)
  next
    fix c l x y n
    assume "?P c"
    then show "?P (qdf_update_class n x y l c)" by simp
  qed
  then show ?thesis by (fastforce simp: qdf_in_range_def qdf_all_def)
qed

lemma qdf_init_loop_attr:
  assumes "qdf_init_loop nx lamdiff labels (self, attr) = Inr (self', attr')"
  shows "attr' l = (if l \<in> set labels then Some (qdf_class_init nx lamdiff) else attr l)"
  using assms
proof (induction labels arbitrary: self attr)
  case Nil
  then show ?case by simp
next
  case (Cons a labels)
  then show ?case by (auto split: sum.splits)
qed

lemma qdf_init_fields:
  assumes "QuadraticDiscriminantFilter_init nx classes lamdiff delta = Inr q"
  shows "qdf_classes q = classes" "qdf_delta q = delta" "qdf_lamdiff q = lamdiff" "qdf_nx q = nx"
    "qdf_all (\<lambda>c. c = qdf_class_init nx lamdiff) q"
  using assms
  by (auto simp: QuadraticDiscriminantFilter_init_def Let_def qdf_all_def qdf_init_loop_attr
      split: sum.splits)

lemma qdf_all_mono:
  assumes "qdf_all P s" "\<And>c. P c \<Longrightarrow> Q c"
  shows "qdf_all Q s"
  using assms by (fastforce simp: qdf_all_def)

lemma qdf_init_gap:
  assumes "QuadraticDiscriminantFilter_init nx classes lamdiff delta = Inr q"
  shows "qdf_gap q"
  unfolding qdf_gap_def
  by (rule qdf_all_mono [OF qdf_init_fields(5) [OF assms]])
    (simp add: qdf_init_fields(3) [OF assms] qdf_class_init_def)

subsection \<open>The least-squares tracker\<close>

lemma mals_adapt_gap: "mals_gap (mals_adapt b s)"
  by (simp add: mals_gap_def mals_adapt_def Let_def)

lemma mals_update_lam [simp]:
  "mals_lam0 (MovingAvgLeastSquares_update nx x y s) = mals_lam0 s"
  "mals_lam1 (MovingAvgLeastSquares_update nx x y s) = mals_lam1 s"
  "mals_delta (MovingAvgLeastSquares_update nx x y s) = mals_delta s"
  "mals_lamdiff (MovingAvgLeastSquares_update nx x y s) = mals_lamdiff s"
  by (simp_all add: MovingAvgLeastSquares_update_def Let_def)

lemma mals_adapt_consts [simp]:
  "mals_delta (mals_adapt b s) = mals_delta s"
  "mals_lamdiff (mals_adapt b s) = mals_lamdiff s"
  by (simp_all add: mals_adapt_def Let_def)

lemma mals_do_consts [simp]:
  "mals_delta (mals_do c s) = mals_delta s"
  "mals_lamdiff (mals_do c s) = mals_lamdiff s"
  by (cases c; simp add: MovingAvgLeastSquares_evaluate_loss_def Let_def)+

lemma mals_run_consts [simp]:
  "mals_delta (mals_run cs s) = mals_delta s"
  "mals_lamdiff (mals_run cs s) = mals_lamdiff s"
  by (induction cs arbitrary: s) simp_all

lemma mals_do_gap:
  assumes "mals_gap s"
  shows "mals_gap (mals_do c s)"
proof (cases c)
  case (MalsEvaluateLoss yhat0 yhat1 y)
  then show ?thesis
    by (simp add: MovingAvgLeastSquares_evaluate_loss_def Let_def mals_adapt_gap)
next
  case (MalsUpdate nx x y)
  then show ?thesis using assms by (simp add: mals_gap_def)
qed

lemma mals_run_gap: "mals_gap s \<Longrightarrow> mals_gap (mals_run cs s)"
  by (induction cs arbitrary: s) (simp_all add: mals_do_gap)

lemma mals_adapt_range:
  assumes "mals_gap s" "mals_in_range s" "0 \<le> mals_delta s" "0 \<le> mals_lamdiff s"
  shows "mals_in_range (mals_adapt b s)"
proof (cases b)
  case True
  then show ?thesis
    using fast_win_unit [of "mals_lam0 s" "mals_lamdiff s" "mals_delta s"] assms
    by (simp add: mals_adapt_def Let_def mals_in_range_def mals_gap_def unit_interval_def)
next
  case False
  then show ?thesis
    using slow_win_unit [of "mals_lam1 s" "mals_lamdiff s" "mals_delta s"] assms
    by (simp add: mals_adapt_def Let_def mals_in_range_def mals_gap_def unit_interval_def)
qed

lemma mals_do_range:
  assumes "mals_gap s" "mals_in_range s" "0 \<le> mals_delta s" "0 \<le> mals_lamdiff s"
  shows "mals_in_range (mals_do c s)"
proof (cases c)
  case (MalsEvaluateLoss yhat0 yhat1 y)
  then show ?thesis
    using mals_adapt_range [OF assms] by (simp add: MovingAvgLeastSquares_evaluate_loss_def Let_def)
next
  case (MalsUpdate nx x y)
  then show ?thesis using assms(2) by (simp add: mals_in_range_def)
qed

lemma mals_run_range:
  assumes "mals_gap s" "mals_in_range s" "0 \<le> mals_delta s" "0 \<le> mals_lamdiff s"
  shows "mals_in_range (mals_run cs s)"
  using assms
  by (induction cs arbitrary: s) (simp_all add: mals_do_gap mals_do_range)

lemma mals_init_eq:
  "MovingAvgLeastSquares_init nx ny lamdiff delta bias polynomial_order =
     Inr \<lparr>mals_bias = bias, mals_polynomial_order = polynomial_order, mals_ny = ny,
          mals_Sxx0 = eye (mals_size nx polynomial_order bias),
          mals_Sxy0 = zeros (mals_size nx polynomial_order bias) ny,
          mals_Sxx1 = eye (mals_size nx polynomial_order bias),
          mals_Sxy1 = zeros (mals_size nx polynomial_order bias) ny,
          mals_lam0 = 0.9, mals_lam1 = 0.9 + lamdiff,
          mals_delta = delta, mals_lamdiff = lamdiff\<rparr>"
  by (simp add: MovingAvgLeastSquares_init_def Let_def register_buffer_def Module_init_def
      new_object_def)

lemma maf_run_consts [simp]:
  "maf_delta (maf_run cs s) = maf_delta s"
  "maf_lamdiff (maf_run cs s) = maf_lamdiff s"
  "maf_classes (maf_run cs s) = maf_classes s"
  by (induction cs arbitrary: s) simp_all
lemma qdf_init_range:
  assumes "QuadraticDiscriminantFilter_init nx classes lamdiff delta = Inr q"
    "0 \<le> lamdiff" "lamdiff \<le> 0.8"
  shows "qdf_in_range q"
  unfolding qdf_in_range_def
  by (rule qdf_all_mono [OF qdf_init_fields(5) [OF assms(1)]])
    (use assms(2,3) in \<open>simp add: qdf_class_init_def unit_interval_def\<close>)
lemma mals_size_nonpositive:
  assumes "polynomial_order \<le> 0"
  shows "mals_size nx polynomial_order bias = (if bias then 1 else 0)"
proof -
  have e: "[1..<nat (polynomial_order + 1)] = []" using assms by simp
  show ?thesis unfolding mals_size_def mals_nx_poly_def e by simp
qed



lemma poly_loop_eq:
  "poly_loop x idx is xl = xl @ map (\<lambda>i. map (gather_prod (combinations_wr idx (i + 1))) x) is"
  by (induction "is" arbitrary: xl) (simp_all add: Let_def)

lemma map_nth_fun: "map (\<lambda>k. g (xs ! k)) [0..<length xs] = map g xs"
  by (rule nth_equalityI) simp_all

lemma polynomial_expansion_rows:
  "polynomial_expansion p nx x =
     map (\<lambda>r. r @ concat (map (\<lambda>i. gather_prod (combinations_wr [0..<nx] (i + 1)) r) [1..<nat p])) x"
proof -
  have "polynomial_expansion p nx x =
      map (\<lambda>k. x ! k @ concat (map (\<lambda>i. gather_prod (combinations_wr [0..<nx] (i + 1)) (x ! k)) [1..<nat p]))
        [0..<length x]"
    by (simp add: polynomial_expansion_def Let_def poly_loop_eq column_stack_def comp_def)
  also have "\<dots> = map (\<lambda>r. r @ concat (map (\<lambda>i. gather_prod (combinations_wr [0..<nx] (i + 1)) r) [1..<nat p])) x"
    by (rule map_nth_fun)
  finally show ?thesis .
qed
lemma prod_list_Suc_upt: "prod_list (map Suc [0..<i]) = fact i"
  by (induction i) simp_all

lemma prod_list_upt_fact: "prod_list [Suc n..<Suc n + i] * fact n = fact (n + i)"
  by (induction i) (simp_all add: algebra_simps)

lemma prod_list_upt_binomial: "prod_list [n..<n + i] = fact i * ((n + i - 1) choose i)"
proof (cases n)
  case 0
  show ?thesis
  proof (cases i)
    case 0
    then show ?thesis using \<open>n = 0\<close> by simp
  next
    case (Suc j)
    have "(0::nat) \<in> set [0..<Suc j]" by (simp only: set_upt atLeastLessThan_iff) blast
    then have "prod_list [0..<Suc j] = 0" using prod_list_zero_iff by blast
    then have "prod_list [0..<0 + Suc j] = 0" by (simp only: add_0)
    moreover have "(0 + Suc j - 1) choose Suc j = 0" by simp
    ultimately have "prod_list [0..<0 + Suc j] = fact (Suc j) * ((0 + Suc j - 1) choose Suc j)"
      by (simp only: mult_zero_right)
    then show ?thesis unfolding \<open>n = 0\<close> Suc .
  qed
next
  case (Suc m)
  have a: "fact i * fact m * ((m + i) choose i) = (fact (m + i) :: nat)"
    using binomial_fact_lemma [of i "m + i"] by simp
  have b: "prod_list [Suc m..<Suc m + i] * fact m = fact (m + i)"
    by (rule prod_list_upt_fact)
  have "prod_list [Suc m..<Suc m + i] * fact m = (fact i * ((m + i) choose i)) * fact m"
    unfolding b a [symmetric] by (simp only: mult_ac)
  then have "prod_list [Suc m..<Suc m + i] = fact i * ((m + i) choose i)"
    using fact_nonzero [of m, where 'a = nat] by (simp only: mult_cancel2) simp
  moreover have "Suc m + i - 1 = m + i" by simp
  ultimately show ?thesis unfolding Suc by (simp only:)
qed

lemma mals_term:
  "real (prod_list [nx..<nx + i]) / real (prod_list (map (\<lambda>k. k + 1) [0..<i])) =
     real ((nx + i - 1) choose i)"
proof -
  have "real (prod_list [nx..<nx + i]) = fact i * real ((nx + i - 1) choose i)"
    by (simp only: prod_list_upt_binomial of_nat_mult of_nat_fact)
  moreover have "real (prod_list (map (\<lambda>k. k + 1) [0..<i])) = fact i"
    using prod_list_Suc_upt [of i] by (simp del: prod_list_Suc_upt)
  ultimately show ?thesis by simp
qed

lemma mals_nx_poly_eq:
  "mals_nx_poly nx p = real (\<Sum>d = 1..nat p. (nx + d - 1) choose d)"
proof -
  have r: "{1..<nat (p + 1)} = {1..nat p}" by auto
  have "mals_nx_poly nx p = sum_list (map (\<lambda>i. real ((nx + i - 1) choose i)) [1..<nat (p + 1)])"
    unfolding mals_nx_poly_def mals_term ..
  also have "\<dots> = (\<Sum>d \<in> {1..<nat (p + 1)}. real ((nx + d - 1) choose d))"
    by (simp add: interv_sum_list_conv_sum_set_nat)
  finally show ?thesis using r by simp
qed

lemma mals_size_eq:
  "mals_size nx p bias = (\<Sum>d = 1..nat p. (nx + d - 1) choose d) + (if bias then 1 else 0)"
  unfolding mals_size_def mals_nx_poly_eq by (simp only: floor_of_nat nat_int)

lemma length_gather_prod [simp]: "length (gather_prod C r) = length C"
  by (simp add: gather_prod_def)

subsection \<open>Arithmetic of the entries\<close>

lemma flt_arith:
  "Fin a + Fin b = Fin (a + b)" "Fin a - Fin b = Fin (a - b)" "Fin a * Fin b = Fin (a * b)"
  "NaN + u = NaN" "u + NaN = NaN" "NaN - u = NaN" "u - NaN = NaN" "NaN * u = NaN" "u * NaN = NaN"
  "(0::flt) = Fin 0" "(1::flt) = Fin 1"
  by (simp_all add: plus_flt_def minus_flt_def times_flt_def zero_flt_def one_flt_def split: flt.splits)

lemma sum_list_NaN:
  assumes "NaN \<in> set xs"
  shows "sum_list xs = NaN"
  using assms by (induction xs) (auto simp: flt_arith)

lemma sum_list_Fin: "sum_list (map Fin rs) = Fin (sum_list rs)"
  by (induction rs) (simp_all add: flt_arith)

lemmas tensor_defs = vadd_def vsub_def vscale_def madd_def mscale_def dot_def col_def
  mtranspose_def matmul_def torch_mean0_def torch_cov0_def rows_eq_def rows_neq_def
  linalg_norm_def clip_def
subsection \<open>The loss of the mean tracker\<close>

lemma offset_diagonal_replicate:
  "offset_diagonal (replicate n (Fin c)) = replicate (n - 1) (Fin 0)"
  by (rule nth_equalityI) (simp_all add: offset_diagonal_def flt_arith)

lemma sum_list_replicate_Fin0: "sum_list (replicate n (Fin 0)) = Fin 0"
  by (induction n) (simp_all add: flt_arith)

lemma linalg_norm_zeros:
  assumes "\<forall>a \<in> set v. a = Fin 0"
  shows "linalg_norm v = Fin 0"
proof -
  have "v ! i * v ! i = Fin 0" if "i < length v" for i
  proof -
    have "v ! i = Fin 0" using assms that by simp
    then show ?thesis by (simp add: flt_arith)
  qed
  then have "map (\<lambda>a. a * a) v = replicate (length v) (Fin 0)"
    by (intro nth_equalityI) simp_all
  then show ?thesis by (simp add: linalg_norm_def sum_list_replicate_Fin0)
qed

lemma maf_loss_constant_rows:
  assumes "\<forall>r \<in> set (maf_mean_estimate s). \<exists>c. r = replicate (length r) (Fin c)"
  shows "maf_loss s = Fin 0"
  unfolding maf_loss_def
proof (rule linalg_norm_zeros, rule ballI)
  fix a
  assume "a \<in> set (concat (map offset_diagonal (maf_mean_estimate s)))"
  then obtain r where r: "r \<in> set (maf_mean_estimate s)" "a \<in> set (offset_diagonal r)"
    by auto
  then obtain c where "r = replicate (length r) (Fin c)" using assms by blast
  then have "offset_diagonal r = replicate (length r - 1) (Fin 0)"
    using offset_diagonal_replicate [of "length r" c] by simp
  then show "a = Fin 0" using r(2) by simp
qed
subsection \<open>A class without rows\<close>

lemma torch_mean0_empty: "torch_mean0 n [] = replicate n NaN"
  by (rule nth_equalityI) (simp_all add: torch_mean0_def col_def flt_arith)

lemma torch_cov0_empty: "torch_cov0 n [] = replicate n (replicate n NaN)"
proof -
  have "map (\<lambda>k. div_count (dot (col [] j) (col [] k)) (length ([] :: flt list list))) [0..<n] =
      replicate n NaN" for j :: nat
    by (rule nth_equalityI) (simp_all add: dot_def col_def flt_arith)
  then show ?thesis
    by (simp add: torch_cov0_def Let_def map_replicate_const)
qed

lemma blend_NaN_left:
  assumes "length r = n"
  shows "vadd (vscale a (replicate n NaN)) (vscale b r) = replicate n NaN"
  using assms by (intro nth_equalityI) (simp_all add: vadd_def vscale_def flt_arith)

lemma blend_NaN_right:
  assumes "length r = n"
  shows "vadd (vscale a r) (vscale b (replicate n NaN)) = replicate n NaN"
  using assms by (intro nth_equalityI) (simp_all add: vadd_def vscale_def flt_arith)

lemma maf_class_step_sizes [simp]:
  "length (maf_m1 (maf_class_step x y i label s)) = length (maf_m1 s)"
  "length (maf_m2 (maf_class_step x y i label s)) = length (maf_m2 s)"
  by (simp_all add: maf_class_step_def Let_def)

lemma maf_class_step_other:
  assumes "j \<noteq> i"
  shows "maf_m1 (maf_class_step x y i label s) ! j = maf_m1 s ! j"
    "maf_m2 (maf_class_step x y i label s) ! j = maf_m2 s ! j"
  using assms by (simp_all add: maf_class_step_def Let_def)

lemma maf_class_step_empty:
  assumes "rows_eq x y label = []" "i < length (maf_m1 s)" "i < length (maf_m2 s)"
    "length (maf_m1 s ! i) = maf_nx s" "length (maf_m2 s ! i) = maf_nx s"
  shows "maf_m1 (maf_class_step x y i label s) ! i = replicate (maf_nx s) NaN"
    "maf_m2 (maf_class_step x y i label s) ! i = replicate (maf_nx s) NaN"
  using assms by (simp_all add: maf_class_step_def Let_def torch_mean0_empty blend_NaN_left)

lemma maf_loop_sizes [simp]:
  "length (maf_m1 (maf_loop x y i labels s)) = length (maf_m1 s)"
  "length (maf_m2 (maf_loop x y i labels s)) = length (maf_m2 s)"
  by (induction labels arbitrary: i s) simp_all

lemma maf_loop_before:
  assumes "k < i"
  shows "maf_m1 (maf_loop x y i labels s) ! k = maf_m1 s ! k"
    "maf_m2 (maf_loop x y i labels s) ! k = maf_m2 s ! k"
  using assms by (induction labels arbitrary: i s) (simp_all add: maf_class_step_other)

lemma maf_loop_empty_class:
  assumes "i \<le> k" "k - i < length labels" "rows_eq x y (labels ! (k - i)) = []"
    "k < length (maf_m1 s)" "k < length (maf_m2 s)"
    "length (maf_m1 s ! k) = maf_nx s" "length (maf_m2 s ! k) = maf_nx s"
  shows "maf_m1 (maf_loop x y i labels s) ! k = replicate (maf_nx s) NaN \<and>
         maf_m2 (maf_loop x y i labels s) ! k = replicate (maf_nx s) NaN"
  using assms
proof (induction labels arbitrary: i s)
  case Nil
  then show ?case by simp
next
  case (Cons l ls)
  show ?case
  proof (cases "k = i")
    case True
    then have e: "rows_eq x y l = []" using Cons.prems(3) by simp
    have "maf_m1 (maf_class_step x y i l s) ! k = replicate (maf_nx s) NaN"
      "maf_m2 (maf_class_step x y i l s) ! k = replicate (maf_nx s) NaN"
      using maf_class_step_empty [OF e, of i s] Cons.prems(4-7) True by simp_all
    then show ?thesis using True by (simp add: maf_loop_before)
  next
    case False
    then have lt: "Suc i \<le> k" using Cons.prems(1) by simp
    have idx: "k - Suc i < length ls" "(l # ls) ! (k - i) = ls ! (k - Suc i)"
      using Cons.prems(2) lt by (simp_all add: Suc_diff_le nth_Cons')
    have "maf_m1 (maf_loop x y (Suc i) ls (maf_class_step x y i l s)) ! k =
            replicate (maf_nx (maf_class_step x y i l s)) NaN \<and>
          maf_m2 (maf_loop x y (Suc i) ls (maf_class_step x y i l s)) ! k =
            replicate (maf_nx (maf_class_step x y i l s)) NaN"
      using lt idx Cons.prems(3-7) False
      by (intro Cons.IH) (simp_all add: maf_class_step_other)
    then show ?thesis by simp
  qed
qed

lemma linalg_norm_NaN:
  assumes "NaN \<in> set v"
  shows "linalg_norm v = NaN"
proof -
  have "NaN \<in> set (map (\<lambda>a. a * a) v)"
    using assms by (force simp: flt_arith)
  then show ?thesis by (simp add: linalg_norm_def sum_list_NaN)
qed

lemma maf_loss_NaN_row:
  assumes "k < length (maf_m1 s)" "k < length (maf_m2 s)" "2 \<le> n"
    "maf_m1 s ! k = replicate n NaN" "maf_m2 s ! k = replicate n NaN"
  shows "maf_loss s = NaN"
proof -
  have k: "k < length (maf_mean_estimate s)"
    using assms(1,2) by (simp add: maf_mean_estimate_def mscale_def madd_def)
  have "maf_mean_estimate s ! k = vscale (Fin 0.5) (vadd (replicate n NaN) (replicate n NaN))"
    using assms(1,2,4,5) by (simp add: maf_mean_estimate_def mscale_def madd_def)
  also have "\<dots> = replicate n NaN"
    by (rule nth_equalityI) (simp_all add: vscale_def vadd_def flt_arith)
  finally have r: "maf_mean_estimate s ! k = replicate n NaN" .
  have "offset_diagonal (replicate n NaN) = replicate (n - 1) NaN"
    by (rule nth_equalityI) (simp_all add: offset_diagonal_def flt_arith)
  then have "NaN \<in> set (offset_diagonal (maf_mean_estimate s ! k))"
    using assms(3) r by simp
  then have "NaN \<in> set (concat (map offset_diagonal (maf_mean_estimate s)))"
    using nth_mem [OF k] by auto
  then show ?thesis unfolding maf_loss_def by (rule linalg_norm_NaN)
qed
lemma qdf_update_loop_nx [simp]:
  "qdf_nx (fst (qdf_update_loop x y labels s)) = qdf_nx s"
  by (induction labels arbitrary: s) (simp_all split: option.splits)

lemma qdf_update_loop_attr:
  assumes "distinct labels" "\<forall>l \<in> set labels. qdf_attr s l \<noteq> None"
  shows "snd (qdf_update_loop x y labels s) = None \<and>
    qdf_attr (fst (qdf_update_loop x y labels s)) l =
      (if l \<in> set labels then map_option (qdf_update_class (qdf_nx s) x y l) (qdf_attr s l)
       else qdf_attr s l)"
  using assms
proof (induction labels arbitrary: s)
  case Nil
  then show ?case by simp
next
  case (Cons a ls)
  obtain c where c: "qdf_attr s a = Some c" using Cons.prems(2) by auto
  let ?s = "s\<lparr>qdf_attr := (qdf_attr s)(a \<mapsto> qdf_update_class (qdf_nx s) x y a c)\<rparr>"
  have d: "distinct ls" "a \<notin> set ls" using Cons.prems(1) by simp_all
  have p: "\<forall>l \<in> set ls. qdf_attr ?s l \<noteq> None" using Cons.prems(2) by simp
  have ih: "snd (qdf_update_loop x y ls ?s) = None \<and>
    qdf_attr (fst (qdf_update_loop x y ls ?s)) l =
      (if l \<in> set ls then map_option (qdf_update_class (qdf_nx ?s) x y l) (qdf_attr ?s l)
       else qdf_attr ?s l)"
    by (rule Cons.IH [OF d(1) p])
  show ?case using ih c d(2) by auto
qed

lemma nan_matrix_blend:
  assumes "is_matrix m n A"
  shows "qdf_blend lam A (replicate m (replicate n NaN)) = replicate m (replicate n NaN)"
proof (rule nth_equalityI)
  show "length (qdf_blend lam A (replicate m (replicate n NaN))) = length (replicate m (replicate n NaN))"
    using assms by (simp add: qdf_blend_def Let_def madd_def mscale_def is_matrix_def)
next
  fix i
  assume "i < length (qdf_blend lam A (replicate m (replicate n NaN)))"
  then have i: "i < m" using assms by (simp add: qdf_blend_def Let_def madd_def mscale_def is_matrix_def)
  then have "length (A ! i) = n" using assms by (simp add: is_matrix_def)
  then show "qdf_blend lam A (replicate m (replicate n NaN)) ! i = replicate m (replicate n NaN) ! i"
    using i assms blend_NaN_right [of "A ! i" n "Fin (1 - lam)" "Fin lam"]
    by (simp add: qdf_blend_def Let_def madd_def mscale_def is_matrix_def)
qed

lemma qdf_update_class_empty:
  assumes "rows_eq x y label = []" "qdf_class_shape nx c"
  shows "q_m1a (qdf_update_class nx x y label c) = [replicate nx NaN]"
    "q_m1b (qdf_update_class nx x y label c) = [replicate nx NaN]"
    "q_S1a (qdf_update_class nx x y label c) = replicate nx (replicate nx NaN)"
    "q_S1b (qdf_update_class nx x y label c) = replicate nx (replicate nx NaN)"
proof -
  have one: "[replicate nx NaN] = replicate 1 (replicate nx NaN)" by simp
  show "q_m1a (qdf_update_class nx x y label c) = [replicate nx NaN]"
    "q_m1b (qdf_update_class nx x y label c) = [replicate nx NaN]"
    using assms nan_matrix_blend [of 1 nx]
    by (simp_all add: qdf_update_class_def Let_def torch_mean0_empty qdf_class_shape_def one
        del: replicate.simps One_nat_def)
  show "q_S1a (qdf_update_class nx x y label c) = replicate nx (replicate nx NaN)"
    "q_S1b (qdf_update_class nx x y label c) = replicate nx (replicate nx NaN)"
    using assms nan_matrix_blend [of nx nx]
    by (simp_all add: qdf_update_class_def Let_def torch_cov0_empty qdf_class_shape_def)
qed

lemma qdf_class_init_shape: "qdf_class_shape nx (qdf_class_init nx lamdiff)"
  by (simp add: qdf_class_shape_def qdf_class_init_def is_matrix_def eye_def)

lemma maf_fields_rows: "maf_rows (maf_fields nx classes lamdiff delta)"
  by (simp add: maf_rows_def maf_fields_def Let_def is_matrix_def)
lemma maf_class_step_lam_sizes [simp]:
  "length (maf_lam1 (maf_class_step x y i label s)) = length (maf_lam1 s)"
  "length (maf_lam2 (maf_class_step x y i label s)) = length (maf_lam2 s)"
  by (simp_all add: maf_class_step_lam)

lemma maf_class_step_lam_other:
  assumes "j \<noteq> i"
  shows "maf_lam1 (maf_class_step x y i label s) ! j = maf_lam1 s ! j"
    "maf_lam2 (maf_class_step x y i label s) ! j = maf_lam2 s ! j"
  using assms by (simp_all add: maf_class_step_lam maf_adapt_def Let_def)

lemma linalg_norm_Nil: "linalg_norm [] = Fin 0"
  by (simp add: linalg_norm_def flt_arith)

lemma norm_sub_NaN_not_less:
  assumes "length r = n" "length r' = n"
  shows "\<not> flt_less (linalg_norm (vsub (replicate n NaN) r)) (linalg_norm (vsub (replicate n NaN) r'))"
proof (cases n)
  case 0
  then show ?thesis using assms by (simp add: vsub_def linalg_norm_Nil)
next
  case (Suc m)
  have "vsub (replicate n NaN) r = replicate n NaN"
    using assms(1) by (intro nth_equalityI) (simp_all add: vsub_def flt_arith)
  then have "linalg_norm (vsub (replicate n NaN) r) = NaN"
    using Suc by (intro linalg_norm_NaN) simp
  then show ?thesis by simp
qed

lemma maf_class_step_empty_lam:
  assumes "rows_eq x y label = []" "i < length (maf_lam1 s)" "i < length (maf_lam2 s)"
    "length (maf_m1 s ! i) = maf_nx s" "length (maf_m2 s ! i) = maf_nx s"
  shows "maf_lam2 (maf_class_step x y i label s) ! i = clip (maf_lam2 s ! i + maf_delta s) 0 1"
    "maf_lam1 (maf_class_step x y i label s) ! i =
       clip (maf_lam2 s ! i + maf_delta s) 0 1 - maf_lamdiff s"
  using assms norm_sub_NaN_not_less [of "maf_m1 s ! i" "maf_nx s" "maf_m2 s ! i"]
  by (simp_all add: maf_class_step_lam torch_mean0_empty maf_adapt_def Let_def)

lemma maf_loop_lam_sizes [simp]:
  "length (maf_lam1 (maf_loop x y i labels s)) = length (maf_lam1 s)"
  "length (maf_lam2 (maf_loop x y i labels s)) = length (maf_lam2 s)"
  by (induction labels arbitrary: i s) simp_all

lemma maf_loop_lam_before:
  assumes "k < i"
  shows "maf_lam1 (maf_loop x y i labels s) ! k = maf_lam1 s ! k"
    "maf_lam2 (maf_loop x y i labels s) ! k = maf_lam2 s ! k"
  using assms by (induction labels arbitrary: i s) (simp_all add: maf_class_step_lam_other)

lemma maf_loop_empty_class_lam:
  assumes "i \<le> k" "k - i < length labels" "rows_eq x y (labels ! (k - i)) = []"
    "k < length (maf_lam1 s)" "k < length (maf_lam2 s)"
    "length (maf_m1 s ! k) = maf_nx s" "length (maf_m2 s ! k) = maf_nx s"
  shows "maf_lam2 (maf_loop x y i labels s) ! k = clip (maf_lam2 s ! k + maf_delta s) 0 1 \<and>
         maf_lam1 (maf_loop x y i labels s) ! k =
           clip (maf_lam2 s ! k + maf_delta s) 0 1 - maf_lamdiff s"
  using assms
proof (induction labels arbitrary: i s)
  case Nil
  then show ?case by simp
next
  case (Cons l ls)
  show ?case
  proof (cases "k = i")
    case True
    then have e: "rows_eq x y l = []" using Cons.prems(3) by simp
    show ?thesis
      using maf_class_step_empty_lam [OF e, of i s] Cons.prems(4-7) True
      by (simp add: maf_loop_lam_before)
  next
    case False
    then have lt: "Suc i \<le> k" using Cons.prems(1) by simp
    have idx: "k - Suc i < length ls" "(l # ls) ! (k - i) = ls ! (k - Suc i)"
      using Cons.prems(2) lt by (simp_all add: Suc_diff_le nth_Cons')
    let ?t = "maf_class_step x y i l s"
    have "maf_lam2 (maf_loop x y (Suc i) ls ?t) ! k = clip (maf_lam2 ?t ! k + maf_delta ?t) 0 1 \<and>
         maf_lam1 (maf_loop x y (Suc i) ls ?t) ! k =
           clip (maf_lam2 ?t ! k + maf_delta ?t) 0 1 - maf_lamdiff ?t"
      using lt idx Cons.prems(3-7) False
      by (intro Cons.IH) (simp_all add: maf_class_step_other)
    then show ?thesis using False by (simp add: maf_class_step_lam_other)
  qed
qed
subsection \<open>Matrix products, entry by entry\<close>


lemma length_col [simp]: "length (col A j) = length A"
  by (simp add: col_def)

lemma nth_col [simp]: "k < length A \<Longrightarrow> col A j ! k = A ! k ! j"
  by (simp add: col_def)

lemma length_mtranspose [simp]: "length (mtranspose n A) = n"
  by (simp add: mtranspose_def)

lemma nth_mtranspose [simp]: "j < n \<Longrightarrow> mtranspose n A ! j = col A j"
  by (simp add: mtranspose_def)

lemma length_matmul [simp]: "length (matmul n A B) = length A"
  by (simp add: matmul_def)


lemma length_nth_matmul [simp]: "i < length A \<Longrightarrow> length (matmul n A B ! i) = n"
  by (simp add: matmul_def)






section \<open>The claims\<close>

text \<open>
  C10. Constructing a \<^verbatim>\<open>MovingAverageFilter\<close> raises for every choice of arguments: the
  initializer registers its first buffer on an object on which \<^verbatim>\<open>Module.__init__\<close> has
  not run, so no constructed instance exists on which \<^verbatim>\<open>evaluate_loss\<close> or \<^verbatim>\<open>update\<close>
  could be called. The same registrations succeed once the base class is initialised.
\<close>

theorem MovingAverageFilter_init_always_raises:
  "MovingAverageFilter_init nx classes lamdiff delta =
     Inl (AttributeError ''cannot assign buffer before Module.__init__() call'') \<and>
   (\<nexists>s. MovingAverageFilter_init nx classes lamdiff delta = Inr s) \<and>
   \<not> isl (register_buffers [''m1'', ''m2'', ''lam1'', ''lam2''] (Module_init new_object))"
proof (intro conjI)
  show e: "MovingAverageFilter_init nx classes lamdiff delta =
     Inl (AttributeError ''cannot assign buffer before Module.__init__() call'')"
    by (simp add: MovingAverageFilter_init_def register_buffer_new_object)
  show "\<nexists>s. MovingAverageFilter_init nx classes lamdiff delta = Inr s"
    by (simp add: e)
  show "\<not> isl (register_buffers [''m1'', ''m2'', ''lam1'', ''lam2''] (Module_init new_object))"
    by (simp add: register_buffer_def Module_init_def new_object_def)
qed

text \<open>
  C4. The forward pass of the gradient reversal returns its input unchanged, also through
  the layer; the backward pass maps the upstream gradient \<open>g\<close> to \<open>- alpha * g\<close> for the
  input (\<open>- 2 * g\<close> when \<open>alpha = 2\<close>) and returns no gradient for \<open>alpha\<close>. This holds for
  every \<open>alpha\<close>, of either sign. For an input that needs no gradient the source returns no
  gradient at all.
\<close>

theorem GradientReversal_contract:
  "snd (GradientReversal_forward needs x alpha) = x \<and>
   snd (GradientReversalLayer_forward alpha needs x) = x \<and>
   GradientReversal_backward (fst (GradientReversal_forward True x alpha)) g =
     (Some (map (\<lambda>v. - alpha * v) g), None) \<and>
   GradientReversal_backward (fst (GradientReversalLayer_forward 2 True x)) g =
     (Some (map (\<lambda>v. - 2 * v) g), None) \<and>
   snd (GradientReversal_backward c g) = None \<and>
   fst (GradientReversal_backward (fst (GradientReversal_forward False x alpha)) g) = None"
  by (simp add: GradientReversal_forward_def GradientReversalLayer_forward_def
      GradientReversal_backward_def Let_def)

text \<open>
  C2. For each of the three trackers, after every finite sequence of \<^verbatim>\<open>update\<close> and
  \<^verbatim>\<open>evaluate_loss\<close> calls on the state set up by the constructor, the slow forgetting
  factor minus the fast one is the constructor's \<open>lamdiff\<close>, for every tracked class.
  Entries are reals here: rounding is not part of the statement. The constructor of the
  mean tracker raises (C10); its sequences start from the values the body of the
  constructor assigns.
\<close>

theorem forgetting_gap_invariant:
  "maf_gap (maf_run mcalls (maf_fields nx classes lamdiff delta)) \<and>
   maf_lamdiff (maf_run mcalls (maf_fields nx classes lamdiff delta)) = lamdiff \<and>
   (\<forall>q. QuadraticDiscriminantFilter_init nx classes lamdiff delta = Inr q \<longrightarrow>
        qdf_gap (qdf_run solve logdet qcalls q) \<and>
        qdf_lamdiff (qdf_run solve logdet qcalls q) = lamdiff) \<and>
   (\<forall>m. MovingAvgLeastSquares_init nx ny lamdiff delta bias polynomial_order = Inr m \<longrightarrow>
        mals_gap (mals_run lcalls m) \<and> mals_lamdiff (mals_run lcalls m) = lamdiff)"
proof (intro conjI allI impI)
  show "maf_gap (maf_run mcalls (maf_fields nx classes lamdiff delta))"
    by (rule maf_run_gap [OF maf_fields_gap])
  show "maf_lamdiff (maf_run mcalls (maf_fields nx classes lamdiff delta)) = lamdiff"
    by (simp add: maf_fields_def Let_def)
next
  fix q
  assume q: "QuadraticDiscriminantFilter_init nx classes lamdiff delta = Inr q"
  show "qdf_gap (qdf_run solve logdet qcalls q)"
    by (rule qdf_run_gap [OF qdf_init_gap [OF q]])
  show "qdf_lamdiff (qdf_run solve logdet qcalls q) = lamdiff"
    by (simp add: qdf_init_fields(3) [OF q])
next
  fix m
  assume m: "MovingAvgLeastSquares_init nx ny lamdiff delta bias polynomial_order = Inr m"
  have "mals_gap m" using m by (auto simp: mals_init_eq mals_gap_def)
  then show "mals_gap (mals_run lcalls m)" by (rule mals_run_gap)
  show "mals_lamdiff (mals_run lcalls m) = lamdiff"
    using m by (auto simp: mals_init_eq)
qed

theorem forgetting_gap_invariant_witness:
  "(let s = maf_run [MafEvaluateLoss [[Fin 1, Fin 3], [Fin 2, Fin 0]] [0, 1], MafUpdate]
              (maf_fields 2 [0, 1] 0.01 0.001)
    in maf_lam2 s ! 0 - maf_lam1 s ! 0 = 0.01 \<and> maf_lam2 s ! 1 - maf_lam1 s ! 1 = 0.01) \<and>
   (\<exists>q. QuadraticDiscriminantFilter_init 2 [0, 1] 0.01 0.001 = Inr q \<and>
        qdf_gap (qdf_run (\<lambda>S B. Inr B) (\<lambda>S. 0)
          [QdfUpdate [[Fin 1, Fin 3], [Fin 2, Fin 0]] [0, 1],
           QdfEvaluateLoss [[Fin 1, Fin 3], [Fin 2, Fin 0]] [0, 1] True] q)) \<and>
   (\<exists>m. MovingAvgLeastSquares_init 2 1 0.1 0.0001 False 1 = Inr m \<and>
        mals_gap (mals_run [MalsUpdate 2 [[1, 2]] [[3]], MalsEvaluateLoss [[0]] [[1]] [[0]]] m))"
proof -
  note t = forgetting_gap_invariant [where nx = 2 and classes = "[0, 1]" and lamdiff = "0.01"
      and delta = "0.001" and solve = "\<lambda>S B. Inr B" and logdet = "\<lambda>S. 0"
      and mcalls = "[MafEvaluateLoss [[Fin 1, Fin 3], [Fin 2, Fin 0]] [0, 1], MafUpdate]"
      and qcalls = "[QdfUpdate [[Fin 1, Fin 3], [Fin 2, Fin 0]] [0, 1],
           QdfEvaluateLoss [[Fin 1, Fin 3], [Fin 2, Fin 0]] [0, 1] True]"]
  note u = forgetting_gap_invariant [where nx = 2 and ny = 1 and lamdiff = "0.1"
      and delta = "0.0001" and bias = False and polynomial_order = 1
      and lcalls = "[MalsUpdate 2 [[1, 2]] [[3]], MalsEvaluateLoss [[0]] [[1]] [[0]]]"]
  let ?s = "maf_run [MafEvaluateLoss [[Fin 1, Fin 3], [Fin 2, Fin 0]] [0, 1], MafUpdate]
              (maf_fields 2 [0, 1] 0.01 0.001)"
  have c: "maf_classes ?s = [0, 1]"
    by (simp only: maf_run_consts) (simp add: maf_fields_def Let_def)
  have g: "maf_gap ?s" "maf_lamdiff ?s = 0.01"
    using t by simp_all
  have a: "maf_lam2 ?s ! 0 - maf_lam1 ?s ! 0 = 0.01 \<and> maf_lam2 ?s ! 1 - maf_lam1 ?s ! 1 = 0.01"
    using g c unfolding maf_gap_def by simp
  obtain q where q: "QuadraticDiscriminantFilter_init 2 [0, 1] 0.01 0.001 = Inr q"
    by (simp add: QuadraticDiscriminantFilter_init_def Let_def register_buffer_def Module_init_def
        new_object_def qdf_param_names_def format_name_def str_int_def)
  have b: "\<exists>q. QuadraticDiscriminantFilter_init 2 [0, 1] 0.01 0.001 = Inr q \<and>
        qdf_gap (qdf_run (\<lambda>S B. Inr B) (\<lambda>S. 0)
          [QdfUpdate [[Fin 1, Fin 3], [Fin 2, Fin 0]] [0, 1],
           QdfEvaluateLoss [[Fin 1, Fin 3], [Fin 2, Fin 0]] [0, 1] True] q)"
    using t q by blast
  obtain m where m: "MovingAvgLeastSquares_init 2 1 0.1 0.0001 False 1 = Inr m"
    by (simp add: mals_init_eq)
  have d: "\<exists>m. MovingAvgLeastSquares_init 2 1 0.1 0.0001 False 1 = Inr m \<and>
        mals_gap (mals_run [MalsUpdate 2 [[1, 2]] [[3]], MalsEvaluateLoss [[0]] [[1]] [[0]]] m)"
    using u m by blast
  show ?thesis using a b d by (simp add: Let_def)
qed

text \<open>
  C3, as amended. When the step \<open>delta\<close> and the gap \<open>lamdiff\<close> are not negative and the
  forgetting factors set at construction lie in \<open>[0, 1]\<close>, both factors of every tracked
  class, the clipped one and the one derived from it by the gap, lie in \<open>[0, 1]\<close> after
  every finite sequence of calls, whichever side wins each comparison.
\<close>

theorem forgetting_factors_stay_in_unit_interval:
  assumes "0 \<le> delta" "0 \<le> lamdiff"
  shows "(maf_in_range (maf_fields nx classes lamdiff delta) \<longrightarrow>
            maf_in_range (maf_run mcalls (maf_fields nx classes lamdiff delta))) \<and>
         (\<forall>q. QuadraticDiscriminantFilter_init nx classes lamdiff delta = Inr q \<and> qdf_in_range q \<longrightarrow>
            qdf_in_range (qdf_run solve logdet qcalls q)) \<and>
         (\<forall>m. MovingAvgLeastSquares_init nx ny lamdiff delta bias polynomial_order = Inr m \<and>
              mals_in_range m \<longrightarrow>
            mals_in_range (mals_run lcalls m))"
proof (intro conjI allI impI)
  assume "maf_in_range (maf_fields nx classes lamdiff delta)"
  then show "maf_in_range (maf_run mcalls (maf_fields nx classes lamdiff delta))"
    using assms by (intro maf_run_range maf_fields_gap) (simp_all add: maf_fields_def Let_def)
next
  fix q
  assume "QuadraticDiscriminantFilter_init nx classes lamdiff delta = Inr q \<and> qdf_in_range q"
  then have q: "QuadraticDiscriminantFilter_init nx classes lamdiff delta = Inr q"
    and r: "qdf_in_range q" by simp_all
  show "qdf_in_range (qdf_run solve logdet qcalls q)"
    using qdf_init_gap [OF q] r assms
    by (intro qdf_run_range) (simp_all add: qdf_init_fields [OF q])
next
  fix m
  assume "MovingAvgLeastSquares_init nx ny lamdiff delta bias polynomial_order = Inr m \<and>
              mals_in_range m"
  then have m: "MovingAvgLeastSquares_init nx ny lamdiff delta bias polynomial_order = Inr m"
    and r: "mals_in_range m" by simp_all
  have g: "mals_gap m" "mals_delta m = delta" "mals_lamdiff m = lamdiff"
    using m by (auto simp: mals_init_eq mals_gap_def)
  show "mals_in_range (mals_run lcalls m)"
    using g r assms by (intro mals_run_range) simp_all
qed

theorem forgetting_factors_stay_in_unit_interval_witness:
  "(0::real) \<le> 0.001 \<and> (0::real) \<le> 0.01 \<and>
   maf_in_range (maf_fields 2 [0, 1] 0.01 0.001) \<and>
   maf_in_range (maf_run [MafEvaluateLoss [[Fin 1, Fin 3], [Fin 2, Fin 0]] [0, 1], MafUpdate]
                   (maf_fields 2 [0, 1] 0.01 0.001)) \<and>
   (\<exists>q. QuadraticDiscriminantFilter_init 2 [0, 1] 0.01 0.001 = Inr q \<and> qdf_in_range q \<and>
        qdf_in_range (qdf_run (\<lambda>S B. Inr B) (\<lambda>S. 0)
          [QdfUpdate [[Fin 1, Fin 3], [Fin 2, Fin 0]] [0, 1],
           QdfEvaluateLoss [[Fin 1, Fin 3], [Fin 2, Fin 0]] [0, 1] True] q)) \<and>
   (\<exists>m. MovingAvgLeastSquares_init 2 1 0.01 0.001 False 1 = Inr m \<and> mals_in_range m \<and>
        mals_in_range (mals_run [MalsUpdate 2 [[1, 2]] [[3]], MalsEvaluateLoss [[0]] [[1]] [[0]]] m))"
proof -
  have h: "(0::real) \<le> 0.001" "(0::real) \<le> 0.01" by simp_all
  note t = forgetting_factors_stay_in_unit_interval [OF h, where nx = 2 and classes = "[0, 1]"
      and ny = 1 and bias = False and polynomial_order = 1
      and solve = "\<lambda>S B. Inr B" and logdet = "\<lambda>S. 0"
      and mcalls = "[MafEvaluateLoss [[Fin 1, Fin 3], [Fin 2, Fin 0]] [0, 1], MafUpdate]"
      and qcalls = "[QdfUpdate [[Fin 1, Fin 3], [Fin 2, Fin 0]] [0, 1],
           QdfEvaluateLoss [[Fin 1, Fin 3], [Fin 2, Fin 0]] [0, 1] True]"
      and lcalls = "[MalsUpdate 2 [[1, 2]] [[3]], MalsEvaluateLoss [[0]] [[1]] [[0]]]"]
  have a: "maf_in_range (maf_fields 2 [0, 1] 0.01 0.001)"
    by (rule maf_fields_range) simp_all
  obtain q where q: "QuadraticDiscriminantFilter_init 2 [0, 1] 0.01 0.001 = Inr q"
    by (simp add: QuadraticDiscriminantFilter_init_def Let_def register_buffer_def Module_init_def
        new_object_def qdf_param_names_def format_name_def str_int_def)
  have qr: "qdf_in_range q"
    by (rule qdf_init_range [OF q]) simp_all
  obtain m where m: "MovingAvgLeastSquares_init 2 1 0.01 0.001 False 1 = Inr m"
    by (simp add: mals_init_eq)
  have mr: "mals_in_range m"
    using m by (auto simp: mals_init_eq mals_in_range_def unit_interval_def)
  show ?thesis
    using h a t q qr m mr by blast
qed

text \<open>
  C3 as stated fails: the constructor accepts any gap. With \<open>lamdiff = 0.2\<close> the least-squares
  tracker starts with the slow factor 1.1, and after a call won by the fast estimator the
  slow factor is 1.0999.
\<close>

theorem forgetting_factor_leaves_unit_interval:
  "\<exists>m. MovingAvgLeastSquares_init 1 1 0.2 0.0001 False 1 = Inr m \<and>
       mals_lam1 m = 1.1 \<and>
       mals_lam1 (mals_run [MalsEvaluateLoss [[0]] [[1]] [[0]]] m) = 1.0999 \<and>
       \<not> mals_in_range (mals_run [MalsEvaluateLoss [[0]] [[1]] [[0]]] m)"
  by (simp add: mals_init_eq MovingAvgLeastSquares_evaluate_loss_def Let_def mse_sum_def vsub_def
      mals_adapt_def clip_def mals_in_range_def unit_interval_def)

text \<open>
  C6, as amended. Neither misconfiguration raises. A reversal type other than
  \<^verbatim>\<open>"mlp"\<close>, \<^verbatim>\<open>"linear"\<close> and \<^verbatim>\<open>"ensemble"\<close> takes the last branch of the constructor:
  the module is built without a reversal branch, and its \<^verbatim>\<open>forward\<close> returns no \<^verbatim>\<open>"gr"\<close>
  entry. A polynomial order that is not positive
  makes the constructor's loop empty: the module is built with accumulators of size
  0, or 1 with a bias column.
\<close>

theorem misconfigured_construction_completes:
  "(reversal \<noteq> ''mlp'' \<and> reversal \<noteq> ''linear'' \<and> reversal \<noteq> ''ensemble'' \<longrightarrow>
      LinearDisentangle_init decoder reversal alpha do_detach n_models =
        Inr \<lparr>dis_do_detach = do_detach, dis_decoder = decoder, dis_reversal = None\<rparr>) \<and>
   (\<forall>out. LinearDisentangle_forward solve run
           \<lparr>dis_do_detach = do_detach, dis_decoder = decoder, dis_reversal = None\<rparr> z = Inr out \<longrightarrow>
         dout_gr out = None) \<and>
   (polynomial_order \<le> 0 \<longrightarrow>
      (\<exists>m. MovingAvgLeastSquares_init nx ny lamdiff delta bias polynomial_order = Inr m \<and>
           mals_Sxx0 m = eye (if bias then 1 else 0) \<and>
           mals_Sxy0 m = zeros (if bias then 1 else 0) ny \<and>
           mals_Sxx1 m = eye (if bias then 1 else 0) \<and>
           mals_Sxy1 m = zeros (if bias then 1 else 0) ny))"
  by (auto simp: LinearDisentangle_init_def LinearDisentangle_forward_def Let_def mals_init_eq
      mals_size_nonpositive split: sum.splits)

theorem misconfigured_construction_completes_witness:
  "''tanh'' \<noteq> ''mlp'' \<and> ''tanh'' \<noteq> ''linear'' \<and> ''tanh'' \<noteq> ''ensemble'' \<and>
   LinearDisentangle_init \<lparr>lin_in = 2, lin_out = 1, lin_weight = [[1, 0]], lin_bias = None\<rparr>
       ''tanh'' 1 True None =
     Inr \<lparr>dis_do_detach = True,
          dis_decoder = \<lparr>lin_in = 2, lin_out = 1, lin_weight = [[1, 0]], lin_bias = None\<rparr>,
          dis_reversal = None\<rparr> \<and>
   LinearDisentangle_forward solve_1x1 (\<lambda>net v. v)
       \<lparr>dis_do_detach = True,
        dis_decoder = \<lparr>lin_in = 2, lin_out = 1, lin_weight = [[1, 0]], lin_bias = None\<rparr>,
        dis_reversal = None\<rparr> [[1, 1]] =
     Inr \<lparr>dout_v = [[1]], dout_mu_null = [[0, 1]], dout_gr = None\<rparr> \<and>
   (0::int) \<le> 0 \<and>
   (\<exists>m. MovingAvgLeastSquares_init 2 1 0.1 0.0001 False 0 = Inr m \<and>
        mals_Sxx0 m = [] \<and> mals_Sxy0 m = [] \<and> mals_Sxx1 m = [] \<and> mals_Sxy1 m = [])"
proof -
  let ?d = "\<lparr>lin_in = 2, lin_out = 1, lin_weight = [[1, 0]], lin_bias = None\<rparr>"
  note t = misconfigured_construction_completes [where reversal = "''tanh''"
      and polynomial_order = 0 and decoder = ?d and alpha = 1 and do_detach = True
      and n_models = None and nx = 2 and ny = 1 and lamdiff = "0.1" and delta = "0.0001"
      and bias = False and solve = solve_1x1 and run = "\<lambda>net v. v" and z = "[[1, 1]]"]
  have "\<exists>g. LinearDisentangle_forward solve_1x1 (\<lambda>net v. v)
       \<lparr>dis_do_detach = True, dis_decoder = ?d, dis_reversal = None\<rparr> [[1, 1]] =
     Inr \<lparr>dout_v = [[1]], dout_mu_null = [[0, 1]], dout_gr = g\<rparr>"
    by (simp add: LinearDisentangle_forward_def null_space_def Let_def msub_def Linear_forward_def
        solve_1x1_def tensor_defs upt_rec numeral_2_eq_2)
  then have f: "LinearDisentangle_forward solve_1x1 (\<lambda>net v. v)
       \<lparr>dis_do_detach = True, dis_decoder = ?d, dis_reversal = None\<rparr> [[1, 1]] =
     Inr \<lparr>dout_v = [[1]], dout_mu_null = [[0, 1]], dout_gr = None\<rparr>"
    using t by auto
  show ?thesis using t f by (simp add: eye_def zeros_def)
qed

text \<open>
  C6 as stated fails: construction with the reversal type \<^verbatim>\<open>"tanh"\<close>, and with the
  polynomial orders 0 and -3, returns a module.
\<close>

theorem misconfigured_construction_does_not_raise:
  "\<not> isl (LinearDisentangle_init \<lparr>lin_in = 2, lin_out = 1, lin_weight = [[1, 0]], lin_bias = None\<rparr>
             ''tanh'' 1 True None) \<and>
   \<not> isl (MovingAvgLeastSquares_init 2 1 0.1 0.0001 False 0) \<and>
   \<not> isl (MovingAvgLeastSquares_init 2 1 0.1 0.0001 False (- 3))"
  by (simp add: LinearDisentangle_init_def Let_def mals_init_eq)



text \<open>
  C5, as amended. The three trackers blend the batch statistic into an accumulator in
  three different ways. The mean tracker sets a class's mean to
  \<open>(1 - lam) * empirical + lam * previous\<close>, with the factor just adapted. The discriminant
  tracker sets each of its eight accumulators to \<open>(1 - lam) * previous + lam * empirical\<close>:
  there \<open>lam\<close> weights the new batch. The least-squares tracker sets each accumulator to
  \<open>lam * previous + empirical\<close>, the batch products \<^verbatim>\<open>x.T @ x\<close> and \<^verbatim>\<open>x.T @ y\<close> entering with
  weight one.
\<close>

theorem accumulator_updates:
  "(i < length (maf_m1 s) \<and> i < length (maf_m2 s) \<longrightarrow>
      (let s' = maf_class_step x y i label s;
           xbar = torch_mean0 (maf_nx s) (rows_eq x y label)
       in maf_m1 s' ! i = vadd (vscale (Fin (1 - maf_lam1 s' ! i)) xbar)
                               (vscale (Fin (maf_lam1 s' ! i)) (maf_m1 s ! i)) \<and>
          maf_m2 s' ! i = vadd (vscale (Fin (1 - maf_lam2 s' ! i)) xbar)
                               (vscale (Fin (maf_lam2 s' ! i)) (maf_m2 s ! i)))) \<and>
   (let c' = qdf_update_class nx qx qy label c;
        m0 = [torch_mean0 nx (rows_neq qx qy label)];
        m1 = [torch_mean0 nx (rows_eq qx qy label)];
        S0 = torch_cov0 nx (rows_neq qx qy label);
        S1 = torch_cov0 nx (rows_eq qx qy label)
    in q_m0a c' = madd (mscale (Fin (1 - q_lama c)) (q_m0a c)) (mscale (Fin (q_lama c)) m0) \<and>
       q_m1a c' = madd (mscale (Fin (1 - q_lama c)) (q_m1a c)) (mscale (Fin (q_lama c)) m1) \<and>
       q_S0a c' = madd (mscale (Fin (1 - q_lama c)) (q_S0a c)) (mscale (Fin (q_lama c)) S0) \<and>
       q_S1a c' = madd (mscale (Fin (1 - q_lama c)) (q_S1a c)) (mscale (Fin (q_lama c)) S1) \<and>
       q_m0b c' = madd (mscale (Fin (1 - q_lamb c)) (q_m0b c)) (mscale (Fin (q_lamb c)) m0) \<and>
       q_m1b c' = madd (mscale (Fin (1 - q_lamb c)) (q_m1b c)) (mscale (Fin (q_lamb c)) m1) \<and>
       q_S0b c' = madd (mscale (Fin (1 - q_lamb c)) (q_S0b c)) (mscale (Fin (q_lamb c)) S0) \<and>
       q_S1b c' = madd (mscale (Fin (1 - q_lamb c)) (q_S1b c)) (mscale (Fin (q_lamb c)) S1)) \<and>
   (let t' = MovingAvgLeastSquares_update n lx ly t;
        xe = mals_features t n lx;
        k = length (mals_Sxx0 t);
        xx = matmul k (mtranspose k xe) xe;
        xy = matmul (mals_ny t) (mtranspose k xe) ly
    in mals_Sxx0 t' = madd (mscale (mals_lam0 t) (mals_Sxx0 t)) xx \<and>
       mals_Sxy0 t' = madd (mscale (mals_lam0 t) (mals_Sxy0 t)) xy \<and>
       mals_Sxx1 t' = madd (mscale (mals_lam1 t) (mals_Sxx1 t)) xx \<and>
       mals_Sxy1 t' = madd (mscale (mals_lam1 t) (mals_Sxy1 t)) xy)"
proof (intro conjI impI)
  assume "i < length (maf_m1 s) \<and> i < length (maf_m2 s)"
  then show "let s' = maf_class_step x y i label s;
           xbar = torch_mean0 (maf_nx s) (rows_eq x y label)
       in maf_m1 s' ! i = vadd (vscale (Fin (1 - maf_lam1 s' ! i)) xbar)
                               (vscale (Fin (maf_lam1 s' ! i)) (maf_m1 s ! i)) \<and>
          maf_m2 s' ! i = vadd (vscale (Fin (1 - maf_lam2 s' ! i)) xbar)
                               (vscale (Fin (maf_lam2 s' ! i)) (maf_m2 s ! i))"
    by (simp add: maf_class_step_def Let_def)
next
  show "let c' = qdf_update_class nx qx qy label c;
        m0 = [torch_mean0 nx (rows_neq qx qy label)];
        m1 = [torch_mean0 nx (rows_eq qx qy label)];
        S0 = torch_cov0 nx (rows_neq qx qy label);
        S1 = torch_cov0 nx (rows_eq qx qy label)
    in q_m0a c' = madd (mscale (Fin (1 - q_lama c)) (q_m0a c)) (mscale (Fin (q_lama c)) m0) \<and>
       q_m1a c' = madd (mscale (Fin (1 - q_lama c)) (q_m1a c)) (mscale (Fin (q_lama c)) m1) \<and>
       q_S0a c' = madd (mscale (Fin (1 - q_lama c)) (q_S0a c)) (mscale (Fin (q_lama c)) S0) \<and>
       q_S1a c' = madd (mscale (Fin (1 - q_lama c)) (q_S1a c)) (mscale (Fin (q_lama c)) S1) \<and>
       q_m0b c' = madd (mscale (Fin (1 - q_lamb c)) (q_m0b c)) (mscale (Fin (q_lamb c)) m0) \<and>
       q_m1b c' = madd (mscale (Fin (1 - q_lamb c)) (q_m1b c)) (mscale (Fin (q_lamb c)) m1) \<and>
       q_S0b c' = madd (mscale (Fin (1 - q_lamb c)) (q_S0b c)) (mscale (Fin (q_lamb c)) S0) \<and>
       q_S1b c' = madd (mscale (Fin (1 - q_lamb c)) (q_S1b c)) (mscale (Fin (q_lamb c)) S1)"
    by (simp add: qdf_update_class_def qdf_blend_def Let_def)
next
  show "let t' = MovingAvgLeastSquares_update n lx ly t;
        xe = mals_features t n lx;
        k = length (mals_Sxx0 t);
        xx = matmul k (mtranspose k xe) xe;
        xy = matmul (mals_ny t) (mtranspose k xe) ly
    in mals_Sxx0 t' = madd (mscale (mals_lam0 t) (mals_Sxx0 t)) xx \<and>
       mals_Sxy0 t' = madd (mscale (mals_lam0 t) (mals_Sxy0 t)) xy \<and>
       mals_Sxx1 t' = madd (mscale (mals_lam1 t) (mals_Sxx1 t)) xx \<and>
       mals_Sxy1 t' = madd (mscale (mals_lam1 t) (mals_Sxy1 t)) xy"
    by (simp add: MovingAvgLeastSquares_update_def Let_def)
qed

theorem accumulator_updates_witness:
  "(0::nat) < length (maf_m1 (maf_fields 2 [0, 1] 0.01 0.001)) \<and>
   (0::nat) < length (maf_m2 (maf_fields 2 [0, 1] 0.01 0.001)) \<and>
   torch_mean0 2 (rows_eq [[Fin 1, Fin 3], [Fin 2, Fin 0]] [0, 1] 0) = [Fin 1, Fin 3] \<and>
   maf_lam1 (maf_class_step [[Fin 1, Fin 3], [Fin 2, Fin 0]] [0, 1] 0 0 (maf_fields 2 [0, 1] 0.01 0.001)) ! 0
     = 0.501 \<and>
   maf_m1 (maf_class_step [[Fin 1, Fin 3], [Fin 2, Fin 0]] [0, 1] 0 0 (maf_fields 2 [0, 1] 0.01 0.001)) ! 0
     = [Fin 0.499, Fin 1.497]"
proof -
  let ?s = "maf_fields 2 [0, 1] 0.01 0.001"
  let ?x = "[[Fin 1, Fin 3], [Fin 2, Fin 0]]"
  have h: "(0::nat) < length (maf_m1 ?s) \<and> (0::nat) < length (maf_m2 ?s)"
    by (simp add: maf_fields_def Let_def)
  have xb: "torch_mean0 (maf_nx ?s) (rows_eq ?x [0, 1] 0) = [Fin 1, Fin 3]"
    by (simp add: maf_fields_def tensor_defs flt_arith upt_rec)
  have l: "maf_lam1 (maf_class_step ?x [0, 1] 0 0 ?s) ! 0 = 0.501"
    by (simp add: maf_class_step_def maf_adapt_def maf_fields_def Let_def tensor_defs flt_arith
        upt_rec numeral_2_eq_2)
  note t = accumulator_updates [of 0 ?s ?x "[0, 1]" 0, THEN conjunct1, rule_format, OF h]
  have "maf_m1 (maf_class_step ?x [0, 1] 0 0 ?s) ! 0 =
      vadd (vscale (Fin (1 - 0.501)) [Fin 1, Fin 3]) (vscale (Fin 0.501) (maf_m1 ?s ! 0))"
    using t unfolding Let_def xb l by (rule conjunct1)
  then have m: "maf_m1 (maf_class_step ?x [0, 1] 0 0 ?s) ! 0 = [Fin 0.499, Fin 1.497]"
    by (simp add: maf_fields_def Let_def tensor_defs flt_arith numeral_2_eq_2)
  have xb2: "torch_mean0 2 (rows_eq ?x [0, 1] 0) = [Fin 1, Fin 3]"
    using xb by (simp add: maf_fields_def)
  show ?thesis using h xb2 l m by simp
qed

text \<open>
  C5 as stated fails for two of the three trackers. In the discriminant tracker with
  \<open>lam = 0.2\<close>, a zero mean and the batch mean 1, the new mean is 0.2 and not 0.8. In the
  least-squares tracker with \<open>lam = 0.9\<close>, the accumulator 1 and the batch product 1, the
  new accumulator is 1.9 and not 1.
\<close>

theorem accumulator_update_weights_differ:
  "q_lama (qdf_class_init 1 0.01) = 0.2 \<and>
   q_m1a (qdf_class_init 1 0.01) = [[Fin 0]] \<and>
   [torch_mean0 1 (rows_eq [[Fin 1]] [0] 0)] = [[Fin 1]] \<and>
   q_m1a (qdf_update_class 1 [[Fin 1]] [0] 0 (qdf_class_init 1 0.01)) = [[Fin 0.2]] \<and>
   madd (mscale (Fin (1 - 0.2)) [[Fin 1]]) (mscale (Fin 0.2) [[Fin 0]]) = [[Fin 0.8]] \<and>
   (\<exists>t. MovingAvgLeastSquares_init 1 1 0.1 0.0001 False 1 = Inr t \<and>
        mals_lam0 t = 0.9 \<and> mals_Sxx0 t = [[1]] \<and>
        matmul 1 (mtranspose 1 (mals_features t 1 [[1]])) (mals_features t 1 [[1]]) = [[1]] \<and>
        mals_Sxx0 (MovingAvgLeastSquares_update 1 [[1]] [[1]] t) = [[1.9]] \<and>
        madd (mscale (1 - 0.9) [[1]]) (mscale 0.9 [[1]]) = [[1::real]])"
proof -
  have s: "mals_size (Suc 0) 1 False = Suc 0"
    by (simp add: mals_size_eq)
  have e: "polynomial_expansion 1 (Suc 0) [[1]] = [[1]]"
    by (simp add: polynomial_expansion_rows)
  show ?thesis
    by (simp add: mals_init_eq s e mals_features_def MovingAvgLeastSquares_update_def Let_def
        qdf_update_class_def qdf_blend_def qdf_class_init_def eye_def tensor_defs flt_arith)
qed

text \<open>
  C8, as amended. \<^verbatim>\<open>MovingAverageFilter.evaluate_loss\<close> returns exactly zero whenever every
  row of the combined estimate \<open>0.5 * (m1 + m2)\<close> is a constant vector of a finite value,
  which may differ from class to class: the loss is the norm of the differences between
  neighbouring coordinates inside each row, not between the rows of different classes.
\<close>

theorem mean_loss_zero_on_constant_rows:
  assumes "\<forall>r \<in> set (maf_mean_estimate (fst (MovingAverageFilter_evaluate_loss x y s))).
             \<exists>c. r = replicate (length r) (Fin c)"
  shows "snd (MovingAverageFilter_evaluate_loss x y s) = Fin 0"
  using maf_loss_constant_rows [OF assms [unfolded MovingAverageFilter_evaluate_loss_def Let_def fst_conv]]
  by (simp add: MovingAverageFilter_evaluate_loss_def Let_def)

theorem mean_loss_zero_on_constant_rows_witness:
  "maf_mean_estimate (fst (MovingAverageFilter_evaluate_loss
        [[Fin 1, Fin 1], [Fin 4, Fin 4]] [0, 1] (maf_fields 2 [0, 1] 0.01 0.001))) =
     [[Fin 0.494, Fin 0.494], [Fin 1.976, Fin 1.976]] \<and>
   [Fin 0.494, Fin 0.494] = replicate (length [Fin 0.494, Fin 0.494]) (Fin 0.494) \<and>
   [Fin 1.976, Fin 1.976] = replicate (length [Fin 1.976, Fin 1.976]) (Fin 1.976) \<and>
   snd (MovingAverageFilter_evaluate_loss
        [[Fin 1, Fin 1], [Fin 4, Fin 4]] [0, 1] (maf_fields 2 [0, 1] 0.01 0.001)) = Fin 0"
proof -
  let ?r = "MovingAverageFilter_evaluate_loss
        [[Fin 1, Fin 1], [Fin 4, Fin 4]] [0, 1] (maf_fields 2 [0, 1] 0.01 0.001)"
  have e: "maf_mean_estimate (fst ?r) = [[Fin 0.494, Fin 0.494], [Fin 1.976, Fin 1.976]]"
    by (simp add: MovingAverageFilter_evaluate_loss_def maf_mean_estimate_def maf_class_step_def
      maf_adapt_def maf_fields_def Let_def tensor_defs flt_arith upt_rec numeral_2_eq_2)
  have c: "[Fin 0.494, Fin 0.494] = replicate (length [Fin 0.494, Fin 0.494]) (Fin 0.494)"
    "[Fin 1.976, Fin 1.976] = replicate (length [Fin 1.976, Fin 1.976]) (Fin 1.976)"
    by (simp_all add: numeral_2_eq_2)
  have h: "\<forall>r \<in> set (maf_mean_estimate (fst ?r)). \<exists>c. r = replicate (length r) (Fin c)"
    unfolding e using c by (metis insert_iff list.simps(15) empty_iff empty_set)
  show ?thesis
    using mean_loss_zero_on_constant_rows [OF h] e c by simp
qed

text \<open>
  C8 as stated fails: after a call on a batch in which both classes have the mean
  \<open>(2, 4)\<close>, both rows of the combined estimate are \<open>(0.988, 1.976)\<close>, and the loss returned
  is the square root of \<open>2 * 0.988\<^sup>2\<close>, not zero.
\<close>

theorem mean_loss_nonzero_on_equal_rows:
  "maf_mean_estimate (fst (MovingAverageFilter_evaluate_loss
        [[Fin 2, Fin 4], [Fin 2, Fin 4]] [0, 1] (maf_fields 2 [0, 1] 0.01 0.001))) =
     [[Fin 0.988, Fin 1.976], [Fin 0.988, Fin 1.976]] \<and>
   snd (MovingAverageFilter_evaluate_loss
        [[Fin 2, Fin 4], [Fin 2, Fin 4]] [0, 1] (maf_fields 2 [0, 1] 0.01 0.001)) =
     Fin (sqrt 1.952288) \<and>
   snd (MovingAverageFilter_evaluate_loss
        [[Fin 2, Fin 4], [Fin 2, Fin 4]] [0, 1] (maf_fields 2 [0, 1] 0.01 0.001)) \<noteq> Fin 0"
proof -
  let ?r = "MovingAverageFilter_evaluate_loss
        [[Fin 2, Fin 4], [Fin 2, Fin 4]] [0, 1] (maf_fields 2 [0, 1] 0.01 0.001)"
  have e: "maf_mean_estimate (fst ?r) = [[Fin 0.988, Fin 1.976], [Fin 0.988, Fin 1.976]]"
    by (simp add: MovingAverageFilter_evaluate_loss_def maf_mean_estimate_def maf_class_step_def
      maf_adapt_def maf_fields_def Let_def tensor_defs flt_arith upt_rec numeral_2_eq_2)
  have "snd ?r = maf_loss (fst ?r)"
    by (simp add: MovingAverageFilter_evaluate_loss_def Let_def)
  also have "\<dots> = Fin (sqrt 1.952288)"
    unfolding maf_loss_def e
    by (simp add: offset_diagonal_def linalg_norm_def flt_arith)
  finally have l: "snd ?r = Fin (sqrt 1.952288)" .
  show ?thesis using e l by simp
qed

text \<open>
  C7, as amended. No tracker skips a class that has no example in the batch, and the call
  does not raise. In \<^verbatim>\<open>MovingAverageFilter.evaluate_loss\<close> the mean of the class is taken
  over zero rows and is not a number in every coordinate; the comparison of the two
  distances is then false, so the factors of the class move as after a win of the slow
  estimator; both means of the class become not a number in every coordinate; and with
  two features or more the loss returned is not a number. In
  \<^verbatim>\<open>QuadraticDiscriminantFilter.update\<close> the in-class means and covariances of that label,
  of both classifiers, become not a number in every entry.
\<close>

theorem empty_class_is_not_skipped:
  "(maf_rows s \<and> maf_shape s \<and> k < length (maf_classes s) \<and>
    rows_eq x y (maf_classes s ! k) = [] \<longrightarrow>
      maf_m1 (fst (MovingAverageFilter_evaluate_loss x y s)) ! k = replicate (maf_nx s) NaN \<and>
      maf_m2 (fst (MovingAverageFilter_evaluate_loss x y s)) ! k = replicate (maf_nx s) NaN \<and>
      maf_lam2 (fst (MovingAverageFilter_evaluate_loss x y s)) ! k =
        clip (maf_lam2 s ! k + maf_delta s) 0 1 \<and>
      maf_lam1 (fst (MovingAverageFilter_evaluate_loss x y s)) ! k =
        clip (maf_lam2 s ! k + maf_delta s) 0 1 - maf_lamdiff s \<and>
      (2 \<le> maf_nx s \<longrightarrow> snd (MovingAverageFilter_evaluate_loss x y s) = NaN)) \<and>
   (distinct (qdf_classes q) \<and> qdf_all (qdf_class_shape (qdf_nx q)) q \<and>
    label \<in> set (qdf_classes q) \<and> rows_eq qx qy label = [] \<longrightarrow>
      snd (QuadraticDiscriminantFilter_update qx qy q) = None \<and>
      (\<exists>c. qdf_attr (fst (QuadraticDiscriminantFilter_update qx qy q)) label = Some c \<and>
           q_m1a c = [replicate (qdf_nx q) NaN] \<and>
           q_m1b c = [replicate (qdf_nx q) NaN] \<and>
           q_S1a c = replicate (qdf_nx q) (replicate (qdf_nx q) NaN) \<and>
           q_S1b c = replicate (qdf_nx q) (replicate (qdf_nx q) NaN)))"
proof (intro conjI impI)
  assume a: "maf_rows s \<and> maf_shape s \<and> k < length (maf_classes s) \<and>
    rows_eq x y (maf_classes s ! k) = []"
  let ?s' = "maf_loop x y 0 (maf_classes s) s"
  have k: "k < length (maf_m1 s)" "k < length (maf_m2 s)"
    "k < length (maf_lam1 s)" "k < length (maf_lam2 s)"
    using a by (simp_all add: maf_rows_def is_matrix_def maf_shape_def)
  have len: "length (maf_m1 s ! k) = maf_nx s" "length (maf_m2 s ! k) = maf_nx s"
    using a k by (simp_all add: maf_rows_def is_matrix_def)
  have e: "rows_eq x y (maf_classes s ! (k - 0)) = []" "k - 0 < length (maf_classes s)"
    using a by simp_all
  have m: "maf_m1 ?s' ! k = replicate (maf_nx s) NaN \<and> maf_m2 ?s' ! k = replicate (maf_nx s) NaN"
    using e k(1,2) len by (intro maf_loop_empty_class) simp_all
  have l: "maf_lam2 ?s' ! k = clip (maf_lam2 s ! k + maf_delta s) 0 1 \<and>
      maf_lam1 ?s' ! k = clip (maf_lam2 s ! k + maf_delta s) 0 1 - maf_lamdiff s"
    using e k(3,4) len by (intro maf_loop_empty_class_lam) simp_all
  show "maf_m1 (fst (MovingAverageFilter_evaluate_loss x y s)) ! k = replicate (maf_nx s) NaN"
    "maf_m2 (fst (MovingAverageFilter_evaluate_loss x y s)) ! k = replicate (maf_nx s) NaN"
    "maf_lam2 (fst (MovingAverageFilter_evaluate_loss x y s)) ! k =
        clip (maf_lam2 s ! k + maf_delta s) 0 1"
    "maf_lam1 (fst (MovingAverageFilter_evaluate_loss x y s)) ! k =
        clip (maf_lam2 s ! k + maf_delta s) 0 1 - maf_lamdiff s"
    using m l by (simp_all add: MovingAverageFilter_evaluate_loss_def Let_def)
  assume n: "2 \<le> maf_nx s"
  have "maf_loss ?s' = NaN"
    using k(1,2) n m by (intro maf_loss_NaN_row [of k _ "maf_nx s"]) simp_all
  then show "snd (MovingAverageFilter_evaluate_loss x y s) = NaN"
    by (simp add: MovingAverageFilter_evaluate_loss_def Let_def)
next
  assume a: "distinct (qdf_classes q) \<and> qdf_all (qdf_class_shape (qdf_nx q)) q \<and>
    label \<in> set (qdf_classes q) \<and> rows_eq qx qy label = []"
  then obtain c where c: "qdf_attr q label = Some c" "qdf_class_shape (qdf_nx q) c"
    by (auto simp: qdf_all_def)
  have p: "\<forall>l \<in> set (qdf_classes q). qdf_attr q l \<noteq> None"
    using a by (auto simp: qdf_all_def)
  have d: "distinct (qdf_classes q)" using a by simp
  note u = qdf_update_loop_attr [OF d p, of qx qy label]
  show "snd (QuadraticDiscriminantFilter_update qx qy q) = None"
    using u by (simp add: QuadraticDiscriminantFilter_update_def)
  have "qdf_attr (fst (QuadraticDiscriminantFilter_update qx qy q)) label =
      Some (qdf_update_class (qdf_nx q) qx qy label c)"
    using u a c(1) by (simp add: QuadraticDiscriminantFilter_update_def)
  moreover have e: "rows_eq qx qy label = []" using a by simp
  ultimately show "\<exists>c. qdf_attr (fst (QuadraticDiscriminantFilter_update qx qy q)) label = Some c \<and>
           q_m1a c = [replicate (qdf_nx q) NaN] \<and>
           q_m1b c = [replicate (qdf_nx q) NaN] \<and>
           q_S1a c = replicate (qdf_nx q) (replicate (qdf_nx q) NaN) \<and>
           q_S1b c = replicate (qdf_nx q) (replicate (qdf_nx q) NaN)"
    using qdf_update_class_empty [OF e c(2)] by simp
qed

theorem empty_class_is_not_skipped_witness:
  "maf_rows (maf_fields 2 [0, 1] 0.01 0.001) \<and> maf_shape (maf_fields 2 [0, 1] 0.01 0.001) \<and>
   (1::nat) < length (maf_classes (maf_fields 2 [0, 1] 0.01 0.001)) \<and>
   rows_eq [[Fin 1, Fin 3]] [0] (maf_classes (maf_fields 2 [0, 1] 0.01 0.001) ! 1) = [] \<and>
   maf_m1 (fst (MovingAverageFilter_evaluate_loss [[Fin 1, Fin 3]] [0]
                  (maf_fields 2 [0, 1] 0.01 0.001))) ! 1 = [NaN, NaN] \<and>
   maf_lam2 (fst (MovingAverageFilter_evaluate_loss [[Fin 1, Fin 3]] [0]
                  (maf_fields 2 [0, 1] 0.01 0.001))) ! 1 = 0.511 \<and>
   snd (MovingAverageFilter_evaluate_loss [[Fin 1, Fin 3]] [0]
          (maf_fields 2 [0, 1] 0.01 0.001)) = NaN \<and>
   (\<exists>q. QuadraticDiscriminantFilter_init 2 [0, 1] 0.01 0.001 = Inr q \<and>
        distinct (qdf_classes q) \<and> qdf_all (qdf_class_shape (qdf_nx q)) q \<and>
        1 \<in> set (qdf_classes q) \<and>
        snd (QuadraticDiscriminantFilter_update [[Fin 1, Fin 3]] [0] q) = None \<and>
        (\<exists>c. qdf_attr (fst (QuadraticDiscriminantFilter_update [[Fin 1, Fin 3]] [0] q)) 1 = Some c \<and>
             q_m1a c = [[NaN, NaN]] \<and> q_S1a c = [[NaN, NaN], [NaN, NaN]]))"
proof -
  let ?s = "maf_fields 2 [0, 1] 0.01 0.001"
  let ?x = "[[Fin 1, Fin 3]]"
  have h: "maf_rows ?s \<and> maf_shape ?s \<and> (1::nat) < length (maf_classes ?s) \<and>
      rows_eq ?x [0] (maf_classes ?s ! 1) = []"
    by (simp add: maf_fields_rows) (simp add: maf_fields_def Let_def maf_shape_def rows_eq_def)
  obtain q where q: "QuadraticDiscriminantFilter_init 2 [0, 1] 0.01 0.001 = Inr q"
    by (simp add: QuadraticDiscriminantFilter_init_def Let_def register_buffer_def Module_init_def
        new_object_def qdf_param_names_def format_name_def str_int_def)
  have f: "qdf_classes q = [0, 1]" "qdf_nx q = 2"
    using qdf_init_fields [OF q] by simp_all
  have sh: "qdf_all (qdf_class_shape (qdf_nx q)) q"
    by (rule qdf_all_mono [OF qdf_init_fields(5) [OF q]]) (simp add: f qdf_class_init_shape)
  have g: "distinct (qdf_classes q) \<and> qdf_all (qdf_class_shape (qdf_nx q)) q \<and>
      1 \<in> set (qdf_classes q) \<and> rows_eq ?x [0] 1 = []"
    using sh by (simp add: f rows_eq_def)
  note t = empty_class_is_not_skipped [of ?s 1 ?x "[0]" q 1 ?x "[0]"]
  have a: "maf_m1 (fst (MovingAverageFilter_evaluate_loss ?x [0] ?s)) ! 1 = [NaN, NaN]"
    "snd (MovingAverageFilter_evaluate_loss ?x [0] ?s) = NaN"
    "maf_lam2 (fst (MovingAverageFilter_evaluate_loss ?x [0] ?s)) ! 1 = 0.511"
    using t h by (simp_all add: maf_fields_def Let_def numeral_2_eq_2 clip_def)
  have b: "snd (QuadraticDiscriminantFilter_update ?x [0] q) = None \<and>
      (\<exists>c. qdf_attr (fst (QuadraticDiscriminantFilter_update ?x [0] q)) 1 = Some c \<and>
           q_m1a c = [[NaN, NaN]] \<and> q_S1a c = [[NaN, NaN], [NaN, NaN]])"
    using t g by (auto simp: f numeral_2_eq_2)
  show ?thesis using h a q g b by blast
qed

text \<open>
  C7 as stated fails: on a batch whose only row belongs to class 0, the call changes the
  mean of class 1 from \<open>(0, 0)\<close> to not-a-number entries, moves its slow factor from 0.51 to
  0.511, and returns a loss that is not a number.
\<close>

theorem empty_class_corrupts_the_state:
  "rows_eq [[Fin 1, Fin 3]] [0] 1 = ([] :: flt list list) \<and>
   maf_m1 (maf_fields 2 [0, 1] 0.01 0.001) ! 1 = [Fin 0, Fin 0] \<and>
   maf_lam2 (maf_fields 2 [0, 1] 0.01 0.001) ! 1 = 0.51 \<and>
   MovingAverageFilter_evaluate_loss [[Fin 1, Fin 3]] [0] (maf_fields 2 [0, 1] 0.01 0.001) =
     (\<lparr>maf_classes = [0, 1], maf_nx = 2,
       maf_m1 = [[Fin 0.499, Fin 1.497], [NaN, NaN]],
       maf_m2 = [[Fin 0.489, Fin 1.467], [NaN, NaN]],
       maf_lam1 = [0.501, 0.501], maf_lam2 = [0.511, 0.511],
       maf_delta = 0.001, maf_lamdiff = 0.01\<rparr>, NaN)"
  by (simp add: MovingAverageFilter_evaluate_loss_def maf_loss_def maf_mean_estimate_def
      offset_diagonal_def maf_class_step_def maf_adapt_def maf_fields_def Let_def tensor_defs
      flt_arith upt_rec numeral_2_eq_2)




end
